theory Spec2Isabelle
  imports Complex_Main
begin

section \<open>JavaScript numbers\<close>

text \<open>
  The application computes with JavaScript numbers, IEEE-754 binary64 values. A finite
  number is modelled by its exact rational value, and the result of an arithmetic
  operation is the exact result rounded to the nearest binary64 value, a tie going to the
  even significand and a result beyond the range becoming an infinity. The sign of zero
  is outside the model: every zero is \<open>+0\<close>.
\<close>

datatype number = Fin rat | PosInf | NegInf | NaN

text \<open>The number of binary digits of a positive integer.\<close>

function bits :: "int \<Rightarrow> int" where
  "bits n = (if n \<le> 0 then 0 else 1 + bits (n div 2))"
  by pat_completeness auto
termination
  by (relation "measure nat") auto

declare bits.simps [simp del]

text \<open>\<open>n / d\<close> rounded to the nearest integer, a tie going to the even one.\<close>

definition round_even_div :: "int \<Rightarrow> int \<Rightarrow> int" where
  "round_even_div n d =
     (let f = n div d; r = n mod d
      in if 2 * r < d then f else if d < 2 * r then f + 1 else if even f then f else f + 1)"

text \<open>The exponent of \<open>p / q\<close> for positive \<open>p\<close> and \<open>q\<close>: the \<open>e\<close> with \<open>2^e \<le> p / q < 2^(e+1)\<close>.\<close>

definition ilog2_frac :: "int \<Rightarrow> int \<Rightarrow> int" where
  "ilog2_frac p q =
     (let d = bits p - bits q
      in if (if 0 \<le> d then 2 ^ nat d * q \<le> p else q \<le> p * 2 ^ nat (- d)) then d else d - 1)"

text \<open>
  Rounding to binary64: with exponent \<open>e\<close> (at least -1022, below which the values are
  subnormal) the significand is a multiple of \<open>2^(e - 52)\<close>; a rounded magnitude of
  \<open>2^1024\<close> or more is an infinity.
\<close>

definition round_double :: "rat \<Rightarrow> number" where
  "round_double x =
     (case quotient_of x of (p, q) \<Rightarrow>
        if p = 0 then Fin 0
        else
          let e = ilog2_frac \<bar>p\<bar> q
          in if 1024 \<le> e then (if 0 < p then PosInf else NegInf)
             else
               let k = max e (- 1022) - 52;
                   m = (if 0 \<le> k then round_even_div \<bar>p\<bar> (q * 2 ^ nat k)
                        else round_even_div (\<bar>p\<bar> * 2 ^ nat (- k)) q)
               in if e = 1023 \<and> m = 9007199254740992 then (if 0 < p then PosInf else NegInf)
                  else Fin (if 0 \<le> k then Fract (sgn p * m * 2 ^ nat k) 1
                            else Fract (sgn p * m) (2 ^ nat (- k))))"

text \<open>\<open>Infinity * r\<close> for a finite \<open>r\<close>.\<close>

definition inf_times :: "rat \<Rightarrow> number" where
  "inf_times r = (if r = 0 then NaN else if 0 < r then PosInf else NegInf)"

fun num_add :: "number \<Rightarrow> number \<Rightarrow> number" where
  "num_add (Fin a) (Fin b) = round_double (a + b)"
| "num_add NaN _ = NaN"
| "num_add _ NaN = NaN"
| "num_add PosInf NegInf = NaN"
| "num_add NegInf PosInf = NaN"
| "num_add PosInf _ = PosInf"
| "num_add _ PosInf = PosInf"
| "num_add NegInf _ = NegInf"
| "num_add _ NegInf = NegInf"

fun num_mul :: "number \<Rightarrow> number \<Rightarrow> number" where
  "num_mul (Fin a) (Fin b) = round_double (a * b)"
| "num_mul NaN _ = NaN"
| "num_mul _ NaN = NaN"
| "num_mul PosInf (Fin b) = inf_times b"
| "num_mul (Fin a) PosInf = inf_times a"
| "num_mul NegInf (Fin b) = inf_times (- b)"
| "num_mul (Fin a) NegInf = inf_times (- a)"
| "num_mul PosInf PosInf = PosInf"
| "num_mul NegInf NegInf = PosInf"
| "num_mul PosInf NegInf = NegInf"
| "num_mul NegInf PosInf = NegInf"

text \<open>
  Division never raises in JavaScript: a non-zero number over zero is an infinity and
  \<open>0 / 0\<close> is \<open>NaN\<close>.
\<close>

fun num_div :: "number \<Rightarrow> number \<Rightarrow> number" where
  "num_div (Fin a) (Fin b) =
     (if b = 0 then (if a = 0 then NaN else if 0 < a then PosInf else NegInf)
      else round_double (a / b))"
| "num_div NaN _ = NaN"
| "num_div _ NaN = NaN"
| "num_div (Fin a) _ = Fin 0"
| "num_div PosInf (Fin b) = (if 0 \<le> b then PosInf else NegInf)"
| "num_div NegInf (Fin b) = (if 0 \<le> b then NegInf else PosInf)"
| "num_div _ _ = NaN"

text \<open>The comparison \<open>a < b\<close>; every comparison with \<open>NaN\<close> is false.\<close>

fun num_less :: "number \<Rightarrow> number \<Rightarrow> bool" where
  "num_less (Fin a) (Fin b) = (a < b)"
| "num_less NaN _ = False"
| "num_less _ NaN = False"
| "num_less NegInf NegInf = False"
| "num_less NegInf _ = True"
| "num_less PosInf _ = False"
| "num_less _ PosInf = True"
| "num_less _ NegInf = False"

definition num_gt :: "number \<Rightarrow> number \<Rightarrow> bool" where
  "num_gt a b = num_less b a"

text \<open>\<open>Math.min(a, b)\<close>: \<open>NaN\<close> if either argument is \<open>NaN\<close>.\<close>

definition Math_min :: "number \<Rightarrow> number \<Rightarrow> number" where
  "Math_min a b =
     (if a = NaN \<or> b = NaN then NaN else if num_less b a then b else a)"

text \<open>
  \<open>Math.round(x)\<close>: the nearest integer, a tie going towards \<open>+Infinity\<close>. The result
  is exact: the integer nearest to a binary64 value is a binary64 value.
\<close>

fun Math_round :: "number \<Rightarrow> number" where
  "Math_round (Fin a) = Fin (of_int \<lfloor>a + 1 / 2\<rfloor>)"
| "Math_round x = x"

section \<open>Data model (types/index.ts)\<close>

record DailyMacros =
  calories :: number
  protein :: number
  carbs :: number
  fat :: number

type_synonym MacroGoals = DailyMacros

text \<open>
  \<open>Food\<close> and \<open>FoodLog\<close> carry the four macro fields of \<open>DailyMacros\<close> and their own
  fields. The field \<open>id\<close> is written \<open>id'\<close>. A \<open>Date\<close> is its time value, the
  milliseconds since the epoch.
\<close>

record Food = DailyMacros +
  id' :: string
  name :: string

record FoodLog = DailyMacros +
  id' :: string
  foodId :: string
  foodName :: string
  quantity :: number
  timestamp :: int

section \<open>Dates (utils/timezone.ts and the built-in \<open>Date\<close>)\<close>

text \<open>
  \<open>Date.prototype.toISOString\<close> prints the UTC fields of a time value as
  \<open>YYYY-MM-DDTHH:mm:ss.sssZ\<close>. The model covers the years 0000 to 9999, which are printed
  with four digits.
\<close>

definition digit :: "int \<Rightarrow> char" where
  "digit n = ''0123456789'' ! nat (n mod 10)"

definition dec2 :: "int \<Rightarrow> string" where
  "dec2 n = [digit (n div 10), digit n]"

definition dec3 :: "int \<Rightarrow> string" where
  "dec3 n = [digit (n div 100), digit (n div 10), digit n]"

definition dec4 :: "int \<Rightarrow> string" where
  "dec4 n = [digit (n div 1000), digit (n div 100), digit (n div 10), digit n]"

text \<open>Year, month and day of the month of a day number (days since 1970-01-01).\<close>

definition civil :: "int \<Rightarrow> int \<times> int \<times> int" where
  "civil days =
     (let z = days + 719468;
          era = z div 146097;
          doe = z mod 146097;
          yoe = (doe - doe div 1460 + doe div 36524 - doe div 146096) div 365;
          doy = doe - (365 * yoe + yoe div 4 - yoe div 100);
          mp = (5 * doy + 2) div 153;
          d = doy - (153 * mp + 2) div 5 + 1;
          m = (if mp < 10 then mp + 3 else mp - 9);
          y = yoe + era * 400 + (if m \<le> 2 then 1 else 0)
      in (y, m, d))"

definition toISOString :: "int \<Rightarrow> string" where
  "toISOString ms =
     (let t = ms mod 86400000
      in case civil (ms div 86400000) of (y, m, d) \<Rightarrow>
           dec4 y @ ''-'' @ dec2 m @ ''-'' @ dec2 d @ ''T'' @
           dec2 (t div 3600000) @ '':'' @ dec2 (t div 60000 mod 60) @ '':'' @
           dec2 (t div 1000 mod 60) @ ''.'' @ dec3 (t mod 1000) @ ''Z'')"

text \<open>\<open>date.toISOString().split('T')[0]\<close>: the UTC calendar date of a time value.\<close>

definition toISODate :: "int \<Rightarrow> string" where
  "toISODate ms = takeWhile (\<lambda>c. c \<noteq> CHR ''T'') (toISOString ms)"

definition IST_OFFSET :: int where
  "IST_OFFSET = 19800000"

text \<open>
  \<open>getCurrentDateIST\<close> reads the clock (\<open>now\<close>, a time value) and the browser's
  \<open>getTimezoneOffset()\<close> (minutes, UTC minus local time).
\<close>

definition getCurrentDateIST :: "int \<Rightarrow> int \<Rightarrow> string" where
  "getCurrentDateIST now timezoneOffset =
     toISODate (now + timezoneOffset * 60 * 1000 + IST_OFFSET)"

section \<open>JSON values\<close>

text \<open>
  A parsed response is a JSON value; \<open>JNum\<close> carries the value of the parsed number. A
  JavaScript value that may be \<open>undefined\<close> is a \<open>Json option\<close>, \<open>None\<close> being
  \<open>undefined\<close>.
\<close>

datatype Json =
  JNull | JBool bool | JNum rat | JStr string | JArr "Json list" | JObj "(string \<times> Json) list"

datatype Exn = TypeError | NetworkError | SyntaxError

fun truthy :: "Json \<Rightarrow> bool" where
  "truthy JNull = False"
| "truthy (JBool b) = b"
| "truthy (JNum r) = (r \<noteq> 0)"
| "truthy (JStr s) = (s \<noteq> [])"
| "truthy (JArr xs) = True"
| "truthy (JObj kvs) = True"

text \<open>
  Reading the property \<open>k\<close> of a value, for the property names the application reads
  (none of them an array index): \<open>null\<close> throws a TypeError, an object yields its own
  property (the last one of that name in the text), strings and arrays have \<open>length\<close>.
\<close>

fun getProp :: "Json \<Rightarrow> string \<Rightarrow> Exn + Json option" where
  "getProp JNull k = Inl TypeError"
| "getProp (JObj kvs) k = Inr (map_of (rev kvs) k)"
| "getProp (JArr xs) k = Inr (if k = ''length'' then Some (JNum (of_nat (length xs))) else None)"
| "getProp (JStr s) k = Inr (if k = ''length'' then Some (JNum (of_nat (length s))) else None)"
| "getProp (JBool b) k = Inr None"
| "getProp (JNum r) k = Inr None"

text \<open>
  What the JavaScript runtime contributes besides \<open>fetch\<close>: the time value of
  \<open>new Date(v)\<close> and the numeric conversion of a JSON value that is not a number.
\<close>

record Runtime =
  Date_time :: "Json option \<Rightarrow> int"
  ToNumber :: "Json \<Rightarrow> number"

section \<open>Remote store: services/googleSheetsService.ts\<close>

definition SHEET_AUTH_TOKEN :: string where
  "SHEET_AUTH_TOKEN = ''calorie-tracker-2025-secure-key-francis''"

text \<open>
  The body of a POST: the constructor is the \<open>action\<close>, its arguments are the token and
  the other fields of the payload in the order of the source.
\<close>

datatype Payload =
  SaveDailyData string string "FoodLog list" DailyMacros
| SaveDailySummary string string DailyMacros number number number
| SaveStatistics string string number number number number number

datatype Request = POST string Payload | GET string

text \<open>
  The outcome of \<open>fetch\<close>: the promise rejects, or it resolves with a response whose body
  parses as JSON (\<open>Some\<close>) or does not (\<open>None\<close>, \<open>response.json()\<close> rejects).
\<close>

datatype FetchResult = Rejects | Resolves "Json option"

datatype Console = Log string | Warn string | Error string

text \<open>The effects of the application: requests sent, console output, alerts shown.\<close>

record World =
  requests :: "Request list"
  console :: "Console list"
  alerts :: "string list"

definition emit :: "Console \<Rightarrow> World \<Rightarrow> World" where
  "emit c w = w\<lparr>console := console w @ [c]\<rparr>"

definition send :: "Request \<Rightarrow> World \<Rightarrow> World" where
  "send r w = w\<lparr>requests := requests w @ [r]\<rparr>"

definition alert :: "string \<Rightarrow> World \<Rightarrow> World" where
  "alert m w = w\<lparr>alerts := alerts w @ [m]\<rparr>"

record GoogleSheetsService =
  deploymentUrl :: string

definition initialize :: "string \<Rightarrow> GoogleSheetsService \<Rightarrow> GoogleSheetsService" where
  "initialize url svc = svc\<lparr>deploymentUrl := url\<rparr>"

definition isConfigured :: "GoogleSheetsService \<Rightarrow> bool" where
  "isConfigured svc = (deploymentUrl svc \<noteq> [])"

definition saveDailyData ::
  "(Request \<Rightarrow> FetchResult) \<Rightarrow> GoogleSheetsService \<Rightarrow> string \<Rightarrow> FoodLog list \<Rightarrow> DailyMacros \<Rightarrow>
   World \<Rightarrow> bool \<times> World" where
  "saveDailyData net svc date foodLogs tot w =
     (if deploymentUrl svc = [] then (False, emit (Warn ''Google Sheets URL not configured'') w)
      else
        let req = POST (deploymentUrl svc) (SaveDailyData SHEET_AUTH_TOKEN date foodLogs tot);
            w1 = send req (emit (Log ''Syncing daily data:'') w)
        in case net req of
             Rejects \<Rightarrow> (False, emit (Error ''Error saving to Google Sheets:'') w1)
           | Resolves _ \<Rightarrow> (True, emit (Log ''Daily data synced'') w1))"

definition saveDailySummary ::
  "(Request \<Rightarrow> FetchResult) \<Rightarrow> GoogleSheetsService \<Rightarrow> string \<Rightarrow> DailyMacros \<Rightarrow> number \<Rightarrow>
   number \<Rightarrow> number \<Rightarrow> World \<Rightarrow> bool \<times> World" where
  "saveDailySummary net svc date tot calorieGoal percent entryCount w =
     (if deploymentUrl svc = [] then (False, w)
      else
        let req = POST (deploymentUrl svc)
                    (SaveDailySummary SHEET_AUTH_TOKEN date tot calorieGoal percent entryCount);
            w1 = send req w
        in case net req of
             Rejects \<Rightarrow> (False, emit (Error ''Error saving daily summary:'') w1)
           | Resolves _ \<Rightarrow> (True, emit (Log ''Daily summary synced'') w1))"

definition saveStatistics ::
  "(Request \<Rightarrow> FetchResult) \<Rightarrow> GoogleSheetsService \<Rightarrow> string \<Rightarrow> number \<Rightarrow> number \<Rightarrow> number \<Rightarrow>
   number \<Rightarrow> number \<Rightarrow> World \<Rightarrow> bool \<times> World" where
  "saveStatistics net svc date avgCalories avgProtein avgCarbs avgFat daysLogged w =
     (if deploymentUrl svc = [] then (False, w)
      else
        let req = POST (deploymentUrl svc)
                    (SaveStatistics SHEET_AUTH_TOKEN date avgCalories avgProtein avgCarbs avgFat
                       daysLogged);
            w1 = send req w
        in case net req of
             Rejects \<Rightarrow> (False, emit (Error ''Error saving statistics:'') w1)
           | Resolves _ \<Rightarrow> (True, emit (Log ''Statistics synced'') w1))"

text \<open>The request of \<open>loadDailyData\<close>: a GET of the deployment URL with its query.\<close>

definition loadDailyData_request :: "GoogleSheetsService \<Rightarrow> string \<Rightarrow> Request" where
  "loadDailyData_request svc date =
     GET (deploymentUrl svc @ ''?token='' @ SHEET_AUTH_TOKEN @
            ''&action=loadDailyData&date='' @ date)"

text \<open>
  The \<open>try\<close> block of \<open>loadDailyData\<close>: \<open>fetch\<close>, \<open>response.json()\<close> and the test of
  \<open>data.error\<close> may each throw. \<open>Inr None\<close> is the returned \<open>null\<close>.
\<close>

definition loadDailyData_try ::
  "(Request \<Rightarrow> FetchResult) \<Rightarrow> GoogleSheetsService \<Rightarrow> string \<Rightarrow> World \<Rightarrow>
   (Exn + Json option) \<times> World" where
  "loadDailyData_try net svc date w =
     (let req = loadDailyData_request svc date;
          w1 = send req w
      in case net req of
           Rejects \<Rightarrow> (Inl NetworkError, w1)
         | Resolves None \<Rightarrow> (Inl SyntaxError, w1)
         | Resolves (Some data) \<Rightarrow>
             (case getProp data ''error'' of
                Inl e \<Rightarrow> (Inl e, w1)
              | Inr err \<Rightarrow>
                  (if (case err of None \<Rightarrow> False | Some v \<Rightarrow> truthy v)
                   then (Inr None, emit (Error ''Error loading from Google Sheets:'') w1)
                   else (Inr (Some data), w1))))"

text \<open>\<open>loadDailyData\<close>: an exception of the \<open>try\<close> block is caught, logged and turned into \<open>null\<close>.\<close>

definition loadDailyData ::
  "(Request \<Rightarrow> FetchResult) \<Rightarrow> GoogleSheetsService \<Rightarrow> string \<Rightarrow> World \<Rightarrow>
   (Exn + Json option) \<times> World" where
  "loadDailyData net svc date w =
     (if deploymentUrl svc = [] then (Inr None, emit (Warn ''Google Sheets URL not configured'') w)
      else case loadDailyData_try net svc date w of
             (Inl e, w1) \<Rightarrow> (Inr None, emit (Error ''Error loading from Google Sheets:'') w1)
           | (Inr r, w1) \<Rightarrow> (Inr r, w1))"

section \<open>Aggregator\<close>

definition zero_totals :: DailyMacros where
  "zero_totals = \<lparr>calories = Fin 0, protein = Fin 0, carbs = Fin 0, fat = Fin 0\<rparr>"

text \<open>The reducer passed to \<open>logs.reduce\<close> in DailyTracker and in handleDeleteLog.\<close>

definition add_log :: "DailyMacros \<Rightarrow> FoodLog \<Rightarrow> DailyMacros" where
  "add_log acc lg =
     \<lparr>calories = num_add (calories acc) (calories lg),
      protein = num_add (protein acc) (protein lg),
      carbs = num_add (carbs acc) (carbs lg),
      fat = num_add (fat acc) (fat lg)\<rparr>"

definition totals :: "FoodLog list \<Rightarrow> DailyMacros" where
  "totals logs = foldl add_log zero_totals logs"

text \<open>DailyTracker: \<open>Math.min((totals.calories / goals.calories) * 100, 100)\<close>.\<close>

definition caloriePercent :: "FoodLog list \<Rightarrow> MacroGoals \<Rightarrow> number" where
  "caloriePercent logs goals =
     Math_min (num_mul (num_div (calories (totals logs)) (calories goals)) (Fin 100)) (Fin 100)"

definition isOverGoal :: "FoodLog list \<Rightarrow> MacroGoals \<Rightarrow> bool" where
  "isOverGoal logs goals = num_gt (calories (totals logs)) (calories goals)"

text \<open>
  handleDeleteLog (spreadsheet variant of App):
  \<open>goals.calories > 0 ? Math.min((totals.calories / goals.calories) * 100, 100) : 0\<close>.
\<close>

definition handleDeleteLog_caloriePercent :: "DailyMacros \<Rightarrow> MacroGoals \<Rightarrow> number" where
  "handleDeleteLog_caloriePercent tot goals =
     (if num_gt (calories goals) (Fin 0)
      then Math_min (num_mul (num_div (calories tot) (calories goals)) (Fin 100)) (Fin 100)
      else Fin 0)"

section \<open>App, spreadsheet variant\<close>

text \<open>A decimal literal such as \<open>3.6\<close> denotes the binary64 value nearest to it.\<close>

definition DEMO_FOODS :: "Food list" where
  "DEMO_FOODS =
     [\<lparr>calories = Fin 165, protein = Fin 31, carbs = Fin 0, fat = round_double (36 / 10),
       Food.id' = ''1'', name = ''Chicken Breast''\<rparr>,
      \<lparr>calories = Fin 130, protein = round_double (27 / 10), carbs = Fin 28, fat = round_double (3 / 10),
       Food.id' = ''2'', name = ''Rice''\<rparr>,
      \<lparr>calories = Fin 155, protein = Fin 13, carbs = round_double (11 / 10), fat = Fin 11,
       Food.id' = ''3'', name = ''Egg''\<rparr>,
      \<lparr>calories = Fin 52, protein = round_double (3 / 10), carbs = Fin 14, fat = round_double (2 / 10),
       Food.id' = ''4'', name = ''Apple''\<rparr>,
      \<lparr>calories = Fin 34, protein = round_double (37 / 10), carbs = Fin 7, fat = round_double (4 / 10),
       Food.id' = ''5'', name = ''Broccoli''\<rparr>,
      \<lparr>calories = Fin 208, protein = Fin 20, carbs = Fin 0, fat = Fin 13,
       Food.id' = ''6'', name = ''Salmon''\<rparr>,
      \<lparr>calories = Fin 89, protein = round_double (11 / 10), carbs = Fin 23, fat = round_double (3 / 10),
       Food.id' = ''7'', name = ''Banana''\<rparr>,
      \<lparr>calories = Fin 42, protein = round_double (34 / 10), carbs = Fin 5, fat = Fin 1,
       Food.id' = ''8'', name = ''Milk''\<rparr>]"

definition DEFAULT_GOALS :: MacroGoals where
  "DEFAULT_GOALS = \<lparr>calories = Fin 2500, protein = Fin 150, carbs = Fin 250, fat = Fin 80\<rparr>"

definition APPS_SCRIPT_URL :: string where
  "APPS_SCRIPT_URL = ''https://script.google.com/macros/s/AKfycbyAdCA_O1UHdCU3l-yukuXZNDXEZE98pNzl0vQXoBQp85p8sYlpNSmnJziQx6xMn9k4/exec''"

text \<open>The state of the App component that the logging flow uses.\<close>

record App =
  foods :: "Food list"
  logs :: "FoodLog list"
  goals :: MacroGoals
  selectedDate :: string

text \<open>The initial state; \<open>today\<close> is the value of \<open>getCurrentDateIST()\<close> at the first render.\<close>

definition App_init :: "string \<Rightarrow> App" where
  "App_init today =
     \<lparr>foods = DEMO_FOODS, logs = [], goals = DEFAULT_GOALS, selectedDate = today\<rparr>"

text \<open>
  The entry built by \<open>handleAddLog\<close>; \<open>uuid\<close> is the result of \<open>generateUUID()\<close> (in the
  database variant, the key of the pushed node) and \<open>now\<close> the time value of \<open>new Date()\<close>.
\<close>

definition newLog :: "string \<Rightarrow> int \<Rightarrow> string \<Rightarrow> number \<Rightarrow> Food \<Rightarrow> FoodLog" where
  "newLog uuid now fid q food =
     \<lparr>calories = Math_round (num_mul (calories food) q),
      protein = num_div (Math_round (num_mul (num_mul (protein food) q) (Fin 10))) (Fin 10),
      carbs = num_div (Math_round (num_mul (num_mul (carbs food) q) (Fin 10))) (Fin 10),
      fat = num_div (Math_round (num_mul (num_mul (fat food) q) (Fin 10))) (Fin 10),
      id' = uuid, foodId = fid, foodName = name food, quantity = q, timestamp = now\<rparr>"

definition handleAddLog :: "string \<Rightarrow> int \<Rightarrow> string \<Rightarrow> number \<Rightarrow> App \<Rightarrow> App" where
  "handleAddLog uuid now fid q st =
     (case find (\<lambda>f. Food.id' f = fid) (foods st) of
        None \<Rightarrow> st
      | Some food \<Rightarrow> st\<lparr>logs := newLog uuid now fid q food # logs st\<rparr>)"

text \<open>\<open>logs.reduce((sum, log) => sum + log.calories, 0)\<close> and its siblings.\<close>

definition sum_of :: "(FoodLog \<Rightarrow> number) \<Rightarrow> FoodLog list \<Rightarrow> number" where
  "sum_of f ls = foldl (\<lambda>sum lg. num_add sum (f lg)) (Fin 0) ls"

definition count :: "FoodLog list \<Rightarrow> number" where
  "count ls = Fin (of_nat (length ls))"

text \<open>
  \<open>handleDeleteLog\<close>: the local update, then the immediate writes. The three service
  calls catch their own exceptions and return a boolean, so the \<open>catch\<close> block of the
  handler is never entered.
\<close>

definition handleDeleteLog ::
  "(Request \<Rightarrow> FetchResult) \<Rightarrow> GoogleSheetsService \<Rightarrow> string \<Rightarrow> App \<times> World \<Rightarrow> App \<times> World" where
  "handleDeleteLog net svc logId s =
     (case s of (st, w) \<Rightarrow>
       let updatedLogs = filter (\<lambda>l. id' l \<noteq> logId) (logs st);
           st' = st\<lparr>logs := updatedLogs\<rparr>;
           tot = totals updatedLogs;
           percent = handleDeleteLog_caloriePercent tot (goals st)
       in case saveDailyData net svc (selectedDate st) updatedLogs tot w of (success, w1) \<Rightarrow>
          case saveDailySummary net svc (selectedDate st) tot (calories (goals st)) percent
                 (count updatedLogs) w1 of (_, w2) \<Rightarrow>
          let some = (0 < length updatedLogs);
              avgCalories = (if some then num_div (sum_of calories updatedLogs) (count updatedLogs)
                             else Fin 0);
              avgProtein = (if some then num_div (sum_of protein updatedLogs) (count updatedLogs)
                            else Fin 0);
              avgCarbs = (if some then num_div (sum_of carbs updatedLogs) (count updatedLogs)
                          else Fin 0);
              avgFat = (if some then num_div (sum_of fat updatedLogs) (count updatedLogs)
                        else Fin 0);
              daysLogged = (if some then Fin 1 else Fin 0)
          in case saveStatistics net svc (selectedDate st) avgCalories avgProtein avgCarbs avgFat
                    daysLogged w2 of (_, w3) \<Rightarrow>
             (st', if \<not> success
                   then alert ''Failed to sync deleted log to Google Sheets. Please check your connection.'' w3
                   else w3))"

definition handleAddFood :: "string \<Rightarrow> Food \<Rightarrow> App \<Rightarrow> App" where
  "handleAddFood uuid foodData st = st\<lparr>foods := foods st @ [foodData\<lparr>Food.id' := uuid\<rparr>]\<rparr>"

definition handleEditFood :: "string \<Rightarrow> Food \<Rightarrow> App \<Rightarrow> App" where
  "handleEditFood i foodData st =
     st\<lparr>foods := map (\<lambda>f. if Food.id' f = i then foodData\<lparr>Food.id' := i\<rparr> else f) (foods st)\<rparr>"

definition handleDeleteFood :: "string \<Rightarrow> App \<Rightarrow> App" where
  "handleDeleteFood i st = st\<lparr>foods := filter (\<lambda>f. Food.id' f \<noteq> i) (foods st)\<rparr>"

text \<open>The entries handed to DailyTracker: those whose UTC date is the selected date.\<close>

definition todaysLogs :: "App \<Rightarrow> FoodLog list" where
  "todaysLogs st = filter (\<lambda>lg. toISODate (timestamp lg) = selectedDate st) (logs st)"

text \<open>
  \<open>goToToday\<close> selects \<open>new Date().toISOString().split('T')[0]\<close>, and \<open>isToday\<close>
  compares the selected date with it.
\<close>

definition goToToday :: "int \<Rightarrow> App \<Rightarrow> App" where
  "goToToday now st = st\<lparr>selectedDate := toISODate now\<rparr>"

definition isToday :: "int \<Rightarrow> App \<Rightarrow> bool" where
  "isToday now st = (selectedDate st = toISODate now)"

subsection \<open>Loading a date\<close>

definition field :: "Json \<Rightarrow> string \<Rightarrow> Json option" where
  "field v k = (case getProp v k of Inl e \<Rightarrow> None | Inr r \<Rightarrow> r)"

text \<open>
  A FoodLog field holds a number or a string. A response field of another JSON type,
  which JavaScript would store as it is, has no counterpart in the record: such a number
  field is read as \<open>NaN\<close> and such a string field as the empty string.
\<close>

definition as_number :: "Json option \<Rightarrow> number" where
  "as_number v = (case v of Some (JNum r) \<Rightarrow> Fin r | _ \<Rightarrow> NaN)"

definition as_string :: "Json option \<Rightarrow> string" where
  "as_string v = (case v of Some (JStr s) \<Rightarrow> s | _ \<Rightarrow> [])"

definition is_truthy :: "Json option \<Rightarrow> bool" where
  "is_truthy v = (case v of None \<Rightarrow> False | Some j \<Rightarrow> truthy j)"

text \<open>
  The callback of \<open>data.foodLogs.map\<close>; \<open>nowString\<close> is \<open>Date.now().toString()\<close>. Reading
  \<open>log.id\<close> of a \<open>null\<close> element throws.
\<close>

definition convertLog :: "Runtime \<Rightarrow> string \<Rightarrow> Json \<Rightarrow> Exn + FoodLog" where
  "convertLog rt nowString lg =
     (case getProp lg ''id'' of
        Inl e \<Rightarrow> Inl e
      | Inr i \<Rightarrow>
          Inr \<lparr>calories = as_number (field lg ''calories''),
               protein = as_number (field lg ''protein''),
               carbs = as_number (field lg ''carbs''),
               fat = as_number (field lg ''fat''),
               id' = (if is_truthy i then as_string i
                      else if is_truthy (field lg ''timestamp'')
                           then as_string (field lg ''timestamp'')
                           else nowString),
               foodId = ''imported'',
               foodName = as_string (field lg ''foodName''),
               quantity = as_number (field lg ''quantity''),
               timestamp = Date_time rt (field lg ''timestamp'')\<rparr>)"

fun convertAll :: "Runtime \<Rightarrow> string \<Rightarrow> Json list \<Rightarrow> Exn + FoodLog list" where
  "convertAll rt nowString [] = Inr []"
| "convertAll rt nowString (x # xs) =
     (case convertLog rt nowString x of
        Inl e \<Rightarrow> Inl e
      | Inr l \<Rightarrow> (case convertAll rt nowString xs of Inl e \<Rightarrow> Inl e | Inr ls \<Rightarrow> Inr (l # ls)))"

text \<open>\<open>data.foodLogs.map(...)\<close>: only an array has a \<open>map\<close> that can be called.\<close>

definition convertedLogs :: "Runtime \<Rightarrow> string \<Rightarrow> Json \<Rightarrow> Exn + FoodLog list" where
  "convertedLogs rt nowString fl =
     (case fl of JArr xs \<Rightarrow> convertAll rt nowString xs | _ \<Rightarrow> Inl TypeError)"

text \<open>\<open>v > 0\<close> for a value that may be \<open>undefined\<close>.\<close>

definition gt_zero :: "Runtime \<Rightarrow> Json option \<Rightarrow> bool" where
  "gt_zero rt v =
     (case v of
        None \<Rightarrow> False
      | Some (JNum r) \<Rightarrow> 0 < r
      | Some j \<Rightarrow> num_gt (ToNumber rt j) (Fin 0))"

text \<open>
  The test \<open>data && data.foodLogs && data.foodLogs.length > 0\<close>: the value of
  \<open>data.foodLogs\<close> when the test is true.
\<close>

definition loaded_foodLogs :: "Runtime \<Rightarrow> Json option \<Rightarrow> Json option" where
  "loaded_foodLogs rt data =
     (case data of
        None \<Rightarrow> None
      | Some d \<Rightarrow>
          if \<not> truthy d then None
          else (case field d ''foodLogs'' of
                  None \<Rightarrow> None
                | Some fl \<Rightarrow>
                    if truthy fl \<and> gt_zero rt (field fl ''length'') then Some fl else None))"

definition loadFromSheets ::
  "Runtime \<Rightarrow> string \<Rightarrow> (Request \<Rightarrow> FetchResult) \<Rightarrow> GoogleSheetsService \<Rightarrow> App \<times> World \<Rightarrow>
   App \<times> World" where
  "loadFromSheets rt nowString net svc s =
     (case s of (st, w) \<Rightarrow>
       if \<not> isConfigured svc then (st, w)
       else case loadDailyData net svc (selectedDate st) w of
              (Inl e, w1) \<Rightarrow> (st, emit (Error ''Failed to load from Google Sheets:'') w1)
            | (Inr data, w1) \<Rightarrow>
                (case loaded_foodLogs rt data of
                   None \<Rightarrow> (st\<lparr>logs := []\<rparr>, emit (Log ''No data in Google Sheets for'') w1)
                 | Some fl \<Rightarrow>
                     (let w2 = emit (Log ''Loaded from Google Sheets:'') w1
                      in case convertedLogs rt nowString fl of
                           Inl e \<Rightarrow> (st, emit (Error ''Failed to load from Google Sheets:'') w2)
                         | Inr ls \<Rightarrow>
                             (st\<lparr>logs := ls\<rparr>, emit (Log ''Synced logs from Sheets:'') w2))))"

section \<open>App, database variant (services/firebaseLogsService.ts)\<close>

datatype 'a Promise = Rejected | Fulfilled 'a

text \<open>
  \<open>getLogsByDate\<close>: \<open>get\<close> is the outcome of reading the path, a snapshot that does not
  exist (\<open>None\<close>) or holds the stored entries by key. The stored entries carry no \<open>id\<close>
  (\<open>addLog\<close> stores an entry without one), so \<open>{ id, ...log }\<close> gives each its key.
\<close>

definition getLogsByDate ::
  "(string \<Rightarrow> (string \<times> FoodLog) list option Promise) \<Rightarrow> string \<Rightarrow> Exn + FoodLog list" where
  "getLogsByDate get date =
     (case get (''logs/'' @ date) of
        Rejected \<Rightarrow> Inl NetworkError
      | Fulfilled None \<Rightarrow> Inr []
      | Fulfilled (Some data) \<Rightarrow> Inr (map (\<lambda>(k, lg). lg\<lparr>id' := k\<rparr>) data))"

definition loadLogs ::
  "(string \<Rightarrow> (string \<times> FoodLog) list option Promise) \<Rightarrow> App \<times> World \<Rightarrow> App \<times> World" where
  "loadLogs get s =
     (case s of (st, w) \<Rightarrow>
       case getLogsByDate get (selectedDate st) of
         Inr logsData \<Rightarrow> (st\<lparr>logs := logsData\<rparr>, w)
       | Inl e \<Rightarrow> (st\<lparr>logs := []\<rparr>, emit (Error ''Failed to load logs from Firebase:'') w))"

text \<open>
  \<open>handleAddLog\<close> of the database variant: \<open>key\<close> is the key of the pushed node and
  \<open>stored\<close> the outcome of writing the entry.
\<close>

definition fb_handleAddLog ::
  "string \<Rightarrow> unit Promise \<Rightarrow> int \<Rightarrow> string \<Rightarrow> number \<Rightarrow> App \<times> World \<Rightarrow> App \<times> World" where
  "fb_handleAddLog key stored now fid q s =
     (case s of (st, w) \<Rightarrow>
       case find (\<lambda>f. Food.id' f = fid) (foods st) of
         None \<Rightarrow> (st, w)
       | Some food \<Rightarrow>
           (case stored of
              Rejected \<Rightarrow> (st, emit (Error ''Failed to add log to Firebase:'') w)
            | Fulfilled _ \<Rightarrow> (st\<lparr>logs := newLog key now fid q food # logs st\<rparr>, w)))"

section \<open>DailyTracker: the debounced synchronisation\<close>

text \<open>
  \<open>JSON.stringify(logs)\<close> is only compared for equality with the last fingerprint. The
  text is represented by the JSON value it denotes: a number that is not finite is
  serialised as \<open>null\<close> and a Date as its ISO string. The initial value of \<open>lastSyncRef\<close>,
  the empty string, is \<open>EmptyString\<close>.
\<close>

datatype Fingerprint = EmptyString | Stringified Json

definition num_json :: "number \<Rightarrow> Json" where
  "num_json n = (case n of Fin r \<Rightarrow> JNum r | _ \<Rightarrow> JNull)"

definition log_json :: "FoodLog \<Rightarrow> Json" where
  "log_json lg =
     JObj [(''id'', JStr (id' lg)), (''foodId'', JStr (foodId lg)),
           (''foodName'', JStr (foodName lg)), (''quantity'', num_json (quantity lg)),
           (''calories'', num_json (calories lg)), (''protein'', num_json (protein lg)),
           (''carbs'', num_json (carbs lg)), (''fat'', num_json (fat lg)),
           (''timestamp'', JStr (toISOString (timestamp lg)))]"

definition JSON_stringify :: "FoodLog list \<Rightarrow> Fingerprint" where
  "JSON_stringify ls = Stringified (JArr (map log_json ls))"

text \<open>What the callback passed to \<open>setTimeout\<close> has captured from the render.\<close>

record SyncJob =
  job_logsHash :: Fingerprint
  job_currentDate :: string
  job_logs :: "FoodLog list"
  job_totals :: DailyMacros
  job_goalCalories :: number
  job_caloriePercent :: number

text \<open>
  The two refs of the component, whether the last run of the effect returned its cleanup
  function, and the timeouts of the component that are pending in the browser (handle and
  callback, in the order in which they were set). Handles are positive.
\<close>

record DailyTracker =
  syncTimeoutRef :: "nat option"
  lastSyncRef :: Fingerprint
  cleanup :: bool
  timeouts :: "(nat \<times> SyncJob) list"
  nextTimeout :: nat

definition DailyTracker_init :: DailyTracker where
  "DailyTracker_init =
     \<lparr>syncTimeoutRef = None, lastSyncRef = EmptyString, cleanup = False, timeouts = [],
      nextTimeout = 1\<rparr>"

definition clearTimeout :: "nat \<Rightarrow> (nat \<times> SyncJob) list \<Rightarrow> (nat \<times> SyncJob) list" where
  "clearTimeout h ts = filter (\<lambda>(k, job). k \<noteq> h) ts"

text \<open>\<open>if (syncTimeoutRef.current) clearTimeout(syncTimeoutRef.current)\<close>.\<close>

definition clear_pending :: "DailyTracker \<Rightarrow> DailyTracker" where
  "clear_pending t =
     (case syncTimeoutRef t of
        None \<Rightarrow> t
      | Some h \<Rightarrow> if h \<noteq> 0 then t\<lparr>timeouts := clearTimeout h (timeouts t)\<rparr> else t)"

text \<open>One run of the synchronisation effect with the props \<open>ls\<close>, \<open>currentDate\<close>, \<open>gs\<close>.\<close>

definition sync_effect ::
  "GoogleSheetsService \<Rightarrow> FoodLog list \<Rightarrow> string \<Rightarrow> MacroGoals \<Rightarrow> DailyTracker \<Rightarrow> DailyTracker" where
  "sync_effect svc ls currentDate gs t =
     (if \<not> isConfigured svc \<or> length ls = 0 then t\<lparr>cleanup := False\<rparr>
      else
        let logsHash = JSON_stringify ls
        in if logsHash = lastSyncRef t then t\<lparr>cleanup := False\<rparr>
           else
             let t1 = clear_pending t;
                 h = nextTimeout t1;
                 job = \<lparr>job_logsHash = logsHash, job_currentDate = currentDate, job_logs = ls,
                        job_totals = totals ls, job_goalCalories = calories gs,
                        job_caloriePercent = caloriePercent ls gs\<rparr>
             in t1\<lparr>syncTimeoutRef := Some h, timeouts := timeouts t1 @ [(h, job)],
                    nextTimeout := h + 1, cleanup := True\<rparr>)"

text \<open>
  A render of the component: \<open>totals\<close> is a fresh object in every render, so the
  dependencies of the effect always differ; the cleanup of the previous run is called,
  if it returned one, and the effect runs again.
\<close>

definition render ::
  "GoogleSheetsService \<Rightarrow> string \<Rightarrow> MacroGoals \<Rightarrow> DailyTracker \<Rightarrow> FoodLog list \<Rightarrow> DailyTracker" where
  "render svc currentDate gs t ls =
     sync_effect svc ls currentDate gs (if cleanup t then clear_pending t else t)"

text \<open>The callback of the timeout. The three writes are started without waiting for any.\<close>

definition sync_callback ::
  "(Request \<Rightarrow> FetchResult) \<Rightarrow> GoogleSheetsService \<Rightarrow> SyncJob \<Rightarrow> DailyTracker \<times> World \<Rightarrow>
   DailyTracker \<times> World" where
  "sync_callback net svc job s =
     (case s of (t, w) \<Rightarrow>
       let t1 = t\<lparr>lastSyncRef := job_logsHash job\<rparr>;
           ls = job_logs job
       in case saveDailyData net svc (job_currentDate job) ls (job_totals job) w of (_, w1) \<Rightarrow>
          case saveDailySummary net svc (job_currentDate job) (job_totals job)
                 (job_goalCalories job) (job_caloriePercent job) (count ls) w1 of (_, w2) \<Rightarrow>
          case saveStatistics net svc (job_currentDate job)
                 (num_div (sum_of calories ls) (count ls)) (num_div (sum_of protein ls) (count ls))
                 (num_div (sum_of carbs ls) (count ls)) (num_div (sum_of fat ls) (count ls))
                 (Fin 1) w2 of (_, w3) \<Rightarrow>
          (t1, emit (Log ''Synced with Google Sheets (debounced):'') w3))"

text \<open>The timeout with handle \<open>h\<close> expires, if it is still pending.\<close>

definition timeout_fires ::
  "(Request \<Rightarrow> FetchResult) \<Rightarrow> GoogleSheetsService \<Rightarrow> DailyTracker \<times> World \<Rightarrow> nat \<Rightarrow>
   DailyTracker \<times> World" where
  "timeout_fires net svc s h =
     (case s of (t, w) \<Rightarrow>
       case map_of (timeouts t) h of
         None \<Rightarrow> (t, w)
       | Some job \<Rightarrow> sync_callback net svc job (t\<lparr>timeouts := clearTimeout h (timeouts t)\<rparr>, w))"

text \<open>
  A burst of mutations: the component is rendered with each state of the entry set in
  turn and no timeout expires in between. Then the debounce window elapses: the pending
  timeouts expire in the order in which they were set.
\<close>

definition burst ::
  "GoogleSheetsService \<Rightarrow> string \<Rightarrow> MacroGoals \<Rightarrow> FoodLog list list \<Rightarrow> DailyTracker \<Rightarrow> DailyTracker" where
  "burst svc currentDate gs states t = foldl (render svc currentDate gs) t states"

definition window_elapses ::
  "(Request \<Rightarrow> FetchResult) \<Rightarrow> GoogleSheetsService \<Rightarrow> DailyTracker \<times> World \<Rightarrow> DailyTracker \<times> World" where
  "window_elapses net svc s = foldl (timeout_fires net svc) s (map fst (timeouts (fst s)))"

text \<open>
  The pending timeouts are tracked when there is at most one, the one whose handle is in
  \<open>syncTimeoutRef\<close> and which the cleanup of the last run of the effect will clear.
\<close>

definition tracked :: "DailyTracker \<Rightarrow> bool" where
  "tracked t =
     (0 < nextTimeout t \<and>
      (case timeouts t of
         [] \<Rightarrow> True
       | [(h, job)] \<Rightarrow> cleanup t \<and> syncTimeoutRef t = Some h \<and> h \<noteq> 0
       | _ \<Rightarrow> False))"

text \<open>
  The guards of the effect: a render schedules a write when the service is configured,
  the entries are not empty and their fingerprint is not the last dispatched one.
\<close>

definition scheduled :: "GoogleSheetsService \<Rightarrow> FoodLog list \<Rightarrow> DailyTracker \<Rightarrow> bool" where
  "scheduled svc ls t = (isConfigured svc \<and> ls \<noteq> [] \<and> JSON_stringify ls \<noteq> lastSyncRef t)"

text \<open>
  App renders DailyTracker with the entries of the selected day. A deletion runs
  \<open>handleDeleteLog\<close>, whose writes are sent at once, and the component is rendered with
  the new entries.
\<close>

definition user_deletes ::
  "(Request \<Rightarrow> FetchResult) \<Rightarrow> GoogleSheetsService \<Rightarrow> string \<Rightarrow> App \<times> DailyTracker \<times> World \<Rightarrow>
   App \<times> DailyTracker \<times> World" where
  "user_deletes net svc logId s =
     (case s of (st, t, w) \<Rightarrow>
       case handleDeleteLog net svc logId (st, w) of (st', w') \<Rightarrow>
         (st', render svc (selectedDate st') (goals st') t (todaysLogs st'), w'))"

definition user_window_elapses ::
  "(Request \<Rightarrow> FetchResult) \<Rightarrow> GoogleSheetsService \<Rightarrow> App \<times> DailyTracker \<times> World \<Rightarrow>
   App \<times> DailyTracker \<times> World" where
  "user_window_elapses net svc s =
     (case s of (st, t, w) \<Rightarrow>
       case window_elapses net svc (t, w) of (t', w') \<Rightarrow> (st, t', w'))"

text \<open>The writes of a day's entries among the requests sent: date, entries and totals.\<close>

fun daily_write :: "Request \<Rightarrow> (string \<times> FoodLog list \<times> DailyMacros) option" where
  "daily_write (POST url (SaveDailyData token date ls tot)) = Some (date, ls, tot)"
| "daily_write _ = None"

definition daily_writes :: "World \<Rightarrow> (string \<times> FoodLog list \<times> DailyMacros) list" where
  "daily_writes w = List.map_filter daily_write (requests w)"

text \<open>The requests that were acknowledged: those whose \<open>fetch\<close> did not reject.\<close>

definition acknowledged :: "(Request \<Rightarrow> FetchResult) \<Rightarrow> World \<Rightarrow> Request list" where
  "acknowledged net w = filter (\<lambda>r. net r \<noteq> Rejects) (requests w)"

definition World_init :: World where
  "World_init = \<lparr>requests = [], console = [], alerts = []\<rparr>"

section \<open>Responses to a load\<close>

text \<open>
  The interface \<open>SyncData\<close> that \<open>loadDailyData\<close> declares as its result: an object
  with a string \<open>date\<close>, an array \<open>foodLogs\<close> and an object \<open>totals\<close> of four numbers.
\<close>

definition is_number :: "Json option \<Rightarrow> bool" where
  "is_number v = (case v of Some (JNum r) \<Rightarrow> True | _ \<Rightarrow> False)"

definition is_SyncData :: "Json \<Rightarrow> bool" where
  "is_SyncData d =
     (case d of
        JObj kvs \<Rightarrow>
          (case field d ''date'' of Some (JStr s) \<Rightarrow> True | _ \<Rightarrow> False) \<and>
          (case field d ''foodLogs'' of Some (JArr xs) \<Rightarrow> True | _ \<Rightarrow> False) \<and>
          (case field d ''totals'' of
             Some (JObj ts) \<Rightarrow>
               is_number (field (JObj ts) ''calories'') \<and> is_number (field (JObj ts) ''protein'') \<and>
               is_number (field (JObj ts) ''carbs'') \<and> is_number (field (JObj ts) ''fat'')
           | _ \<Rightarrow> False)
      | _ \<Rightarrow> False)"

text \<open>
  The outcomes of the request for which the load has no data: the request fails, the body
  does not parse, the body is \<open>null\<close>, or the parsed body has a truthy \<open>error\<close>.
\<close>

definition no_data :: "FetchResult \<Rightarrow> bool" where
  "no_data r =
     (case r of
        Rejects \<Rightarrow> True
      | Resolves None \<Rightarrow> True
      | Resolves (Some d) \<Rightarrow> d = JNull \<or> is_truthy (field d ''error''))"

section \<open>Concrete scenarios\<close>

text \<open>A network in which every request has the same outcome.\<close>

definition always :: "FetchResult \<Rightarrow> Request \<Rightarrow> FetchResult" where
  "always r req = r"

text \<open>A runtime for scenarios that convert neither a date nor a value that is not a number.\<close>

definition plain_runtime :: Runtime where
  "plain_runtime = \<lparr>Date_time = (\<lambda>v. 0), ToNumber = (\<lambda>j. NaN)\<rparr>"

definition configured :: GoogleSheetsService where
  "configured = initialize APPS_SCRIPT_URL \<lparr>deploymentUrl = []\<rparr>"

definition unconfigured :: GoogleSheetsService where
  "unconfigured = \<lparr>deploymentUrl = []\<rparr>"

text \<open>An entry of 165 kcal logged at 2025-01-01T20:00:00Z and one of 260 kcal.\<close>

definition entry1 :: FoodLog where
  "entry1 = newLog ''a'' 1735761600000 ''1'' (Fin 1) (DEMO_FOODS ! 0)"

definition entry2 :: FoodLog where
  "entry2 = newLog ''b'' 1735761600000 ''2'' (Fin 2) (DEMO_FOODS ! 1)"

text \<open>The App on 2025-01-01 with one entry, and with two entries.\<close>

definition day_with_entry :: App where
  "day_with_entry = (App_init ''2025-01-01'')\<lparr>logs := [entry1]\<rparr>"

definition day_with_two :: App where
  "day_with_two = (App_init ''2025-01-01'')\<lparr>logs := [entry1, entry2]\<rparr>"

text \<open>A database whose reads are all rejected.\<close>

definition unreachable_db :: "string \<Rightarrow> (string \<times> FoodLog) list option Promise" where
  "unreachable_db path = Rejected"

text \<open>The component after one render with the first entry, and what its timeout captured.\<close>

definition one_pending :: DailyTracker where
  "one_pending = render configured ''2025-01-01'' DEFAULT_GOALS DailyTracker_init [entry1]"

definition job1 :: SyncJob where
  "job1 =
     \<lparr>job_logsHash = JSON_stringify [entry1], job_currentDate = ''2025-01-01'',
      job_logs = [entry1], job_totals = totals [entry1],
      job_goalCalories = calories DEFAULT_GOALS,
      job_caloriePercent = caloriePercent [entry1] DEFAULT_GOALS\<rparr>"

text \<open>The quantity \<open>1e308\<close>.\<close>

definition huge_quantity :: number where
  "huge_quantity = round_double (10 ^ 308)"

text \<open>The response \<open>{"foodLogs": "abc"}\<close>.\<close>

definition foodLogs_string :: Json where
  "foodLogs_string = JObj [(''foodLogs'', JStr ''abc'')]"

section \<open>Rounding as the specification words it\<close>

text \<open>
  A number is \<open>y\<close> rounded to the nearest integer if it is an integer at distance at most
  1/2 from \<open>y\<close>. A number is rounded to one decimal place from a value whose tenfold is \<open>y\<close>
  if it is the binary64 value nearest to \<open>k / 10\<close> for an integer \<open>k\<close> nearest to \<open>y\<close>; the
  integers nearest to \<open>y\<close> are \<open>\<lfloor>y + 1/2\<rfloor>\<close> and \<open>\<lceil>y - 1/2\<rceil>\<close>, which differ only at a tie.
\<close>

definition rounded_to_integer :: "rat \<Rightarrow> number \<Rightarrow> bool" where
  "rounded_to_integer y n =
     (case n of Fin r \<Rightarrow> of_int \<lfloor>r\<rfloor> = r \<and> \<bar>r - y\<bar> \<le> 1 / 2 | _ \<Rightarrow> False)"

definition rounded_to_tenth :: "rat \<Rightarrow> number \<Rightarrow> bool" where
  "rounded_to_tenth y n =
     (n = round_double (of_int \<lfloor>y + 1 / 2\<rfloor> / 10) \<or> n = round_double (of_int \<lceil>y - 1 / 2\<rceil> / 10))"

section \<open>Properties of the aggregator\<close>

text \<open>
  The rounding at some values: the literal \<open>0.1\<close>, the two ties above \<open>2^53\<close>, which go
  to the even significand, and the sum \<open>0.1 + 0.2\<close>, which is \<open>0.30000000000000004\<close>.
\<close>

lemma round_double_examples:
  "round_double (1 / 10) = Fin (3602879701896397 / 36028797018963968) \<and>
   round_double 9007199254740993 = Fin 9007199254740992 \<and>
   round_double 9007199254740995 = Fin 9007199254740996 \<and>
   num_add (round_double (1 / 10)) (round_double (2 / 10)) =
     Fin (1351079888211149 / 4503599627370496)"
  by code_simp

lemma totals_Nil: "totals [] = zero_totals"
  by (simp add: totals_def)

text \<open>The guarded computation of handleDeleteLog yields 0 for every goal that is not positive.\<close>

lemma handleDeleteLog_caloriePercent_guard:
  "\<not> num_gt (calories gs) (Fin 0) \<Longrightarrow> handleDeleteLog_caloriePercent tot gs = Fin 0"
  by (simp add: handleDeleteLog_caloriePercent_def)

text \<open>
  Claim C1. With \<open>goals.calories <= 0\<close> the calorie-goal percentage should be 0. The
  percentage computed by DailyTracker has no guard: on an empty day with a goal of 0 it is
  \<open>NaN\<close>, with a logged entry of 100 kcal and a goal of 0 it is 100 (from \<open>Infinity\<close>), and
  with a goal of -100 it is -50.
\<close>

theorem caloriePercent_unguarded:
  "caloriePercent [] \<lparr>calories = Fin 0, protein = Fin 150, carbs = Fin 250, fat = Fin 80\<rparr> = NaN \<and>
   caloriePercent
     [\<lparr>calories = Fin 100, protein = Fin 0, carbs = Fin 0, fat = Fin 0, id' = ''a'',
       foodId = ''1'', foodName = ''x'', quantity = Fin 1, timestamp = 0\<rparr>]
     \<lparr>calories = Fin 0, protein = Fin 150, carbs = Fin 250, fat = Fin 80\<rparr> = Fin 100 \<and>
   caloriePercent
     [\<lparr>calories = Fin 50, protein = Fin 0, carbs = Fin 0, fat = Fin 0, id' = ''a'',
       foodId = ''1'', foodName = ''x'', quantity = Fin 1, timestamp = 0\<rparr>]
     \<lparr>calories = Fin (- 100), protein = Fin 150, carbs = Fin 250, fat = Fin 80\<rparr> = Fin (- 50)"
  by code_simp

text \<open>
  Claim C2. With the default goals and the demo foods, logging quantity 1 of Chicken
  Breast and then quantity 2 of Rice gives the totals 425 kcal, 36.4 g protein, 56 g carbs
  and 4.2 g fat, 17 percent of the calorie goal, and the day is not over the goal; 36.4
  and 4.2 are the binary64 values that these literals denote.
\<close>

theorem scenario_two_entries:
  "let st = handleAddLog u2 n2 ''2'' (Fin 2) (handleAddLog u1 n1 ''1'' (Fin 1) (App_init d))
   in goals st = \<lparr>calories = Fin 2500, protein = Fin 150, carbs = Fin 250, fat = Fin 80\<rparr> \<and>
      totals (logs st) =
        \<lparr>calories = Fin 425, protein = round_double (364 / 10), carbs = Fin 56,
         fat = round_double (42 / 10)\<rparr> \<and>
      caloriePercent (logs st) (goals st) = Fin 17 \<and>
      isOverGoal (logs st) (goals st) = False"
  by code_simp

section \<open>Properties of entry creation\<close>

lemma nearest_integers:
  "\<bar>of_int k - y\<bar> \<le> (1 / 2 :: rat) \<longleftrightarrow> k = \<lfloor>y + 1 / 2\<rfloor> \<or> k = \<lceil>y - 1 / 2\<rceil>"
proof
  assume near: "\<bar>of_int k - y\<bar> \<le> (1 / 2 :: rat)"
  then have "of_int k \<le> y + 1 / 2" and "y - 1 / 2 \<le> of_int k"
    by linarith+
  then have upper: "k \<le> \<lfloor>y + 1 / 2\<rfloor>" and lower: "\<lceil>y - 1 / 2\<rceil> \<le> k"
    by (simp_all add: le_floor_iff ceiling_le_iff)
  have "of_int \<lfloor>y + 1 / 2\<rfloor> \<le> y + 1 / 2"
    by (rule of_int_floor_le)
  moreover have "y - 1 / 2 \<le> of_int \<lceil>y - 1 / 2\<rceil>"
    by (rule le_of_int_ceiling)
  ultimately have "(of_int \<lfloor>y + 1 / 2\<rfloor> :: rat) \<le> of_int \<lceil>y - 1 / 2\<rceil> + 1"
    by linarith
  then have "(of_int \<lfloor>y + 1 / 2\<rfloor> :: rat) \<le> of_int (\<lceil>y - 1 / 2\<rceil> + 1)"
    by simp
  then have "\<lfloor>y + 1 / 2\<rfloor> \<le> \<lceil>y - 1 / 2\<rceil> + 1"
    by (simp only: of_int_le_iff)
  with upper lower show "k = \<lfloor>y + 1 / 2\<rfloor> \<or> k = \<lceil>y - 1 / 2\<rceil>"
    by linarith
next
  assume "k = \<lfloor>y + 1 / 2\<rfloor> \<or> k = \<lceil>y - 1 / 2\<rceil>"
  then show "\<bar>of_int k - y\<bar> \<le> (1 / 2 :: rat)"
  proof
    assume k: "k = \<lfloor>y + 1 / 2\<rfloor>"
    have "of_int \<lfloor>y + 1 / 2\<rfloor> \<le> y + 1 / 2"
      by (rule of_int_floor_le)
    moreover have "y + 1 / 2 < of_int \<lfloor>y + 1 / 2\<rfloor> + 1"
      using floor_correct [of "y + 1 / 2"] by simp
    ultimately show ?thesis
      unfolding k by linarith
  next
    assume k: "k = \<lceil>y - 1 / 2\<rceil>"
    have "y - 1 / 2 \<le> of_int \<lceil>y - 1 / 2\<rceil>"
      by (rule le_of_int_ceiling)
    moreover have "of_int \<lceil>y - 1 / 2\<rceil> - 1 < y - 1 / 2"
      using ceiling_correct [of "y - 1 / 2"] by simp
    ultimately show ?thesis
      unfolding k by linarith
  qed
qed

text \<open>The one-decimal rounding in terms of the integers at distance at most 1/2.\<close>

lemma rounded_to_tenth_iff:
  "rounded_to_tenth y n \<longleftrightarrow>
     (\<exists>k. \<bar>of_int k - y\<bar> \<le> 1 / 2 \<and> n = round_double (of_int k / 10))"
  unfolding rounded_to_tenth_def nearest_integers by blast

lemma Math_round_integer: "rounded_to_integer y (Math_round (Fin y))"
proof -
  have "\<bar>of_int \<lfloor>y + 1 / 2\<rfloor> - y\<bar> \<le> (1 / 2 :: rat)"
    using nearest_integers [of "\<lfloor>y + 1 / 2\<rfloor>" y] by blast
  then show ?thesis
    by (simp add: rounded_to_integer_def)
qed

lemma Math_round_tenth: "rounded_to_tenth y (num_div (Math_round (Fin y)) (Fin 10))"
  by (simp add: rounded_to_tenth_def)

lemma newLog_fields:
  assumes "num_mul (calories food) q = Fin yc"
    and "num_mul (num_mul (protein food) q) (Fin 10) = Fin yp"
    and "num_mul (num_mul (carbs food) q) (Fin 10) = Fin ycb"
    and "num_mul (num_mul (fat food) q) (Fin 10) = Fin yf"
  shows "rounded_to_integer yc (calories (newLog uuid now fid q food))"
    and "rounded_to_tenth yp (protein (newLog uuid now fid q food))"
    and "rounded_to_tenth ycb (carbs (newLog uuid now fid q food))"
    and "rounded_to_tenth yf (fat (newLog uuid now fid q food))"
  using assms Math_round_integer [of yc] Math_round_tenth [of yp] Math_round_tenth [of ycb]
    Math_round_tenth [of yf]
  by (simp_all add: newLog_def)

text \<open>
  The entries that the code stores for quantity 0.7 of Chicken Breast and for quantity
  0.35 of Broccoli: 115 kcal (the product is 115.49999999999999) and 2.4 g carbs (the
  tenfold product is 24.499999999999996).
\<close>

lemma newLog_examples:
  "calories (newLog ''u'' 0 ''1'' (round_double (7 / 10)) (DEMO_FOODS ! 0)) = Fin 115 \<and>
   carbs (newLog ''u'' 0 ''5'' (round_double (35 / 100)) (DEMO_FOODS ! 4)) = round_double (24 / 10)"
  by code_simp

lemma handleDeleteLog_logs:
  "logs (fst (handleDeleteLog net svc logId (st, w))) = filter (\<lambda>l. id' l \<noteq> logId) (logs st)"
  by (simp add: handleDeleteLog_def Let_def split: prod.splits)

lemma huge_quantity_value:
  "huge_quantity = Fin 100000000000000001097906362944045541740492309677311846336810682903157585404911491537163328978494688899061249669721172515611590283743140088328307009198146046031271664502933027185697489699588559043338384466165001178426897626212945177628091195786707458122783970171784415105291802893207873272974885715430223118336"
  unfolding huge_quantity_def by code_simp

lemma huge_product:
  "num_mul (Fin 89) (Fin 100000000000000001097906362944045541740492309677311846336810682903157585404911491537163328978494688899061249669721172515611590283743140088328307009198146046031271664502933027185697489699588559043338384466165001178426897626212945177628091195786707458122783970171784415105291802893207873272974885715430223118336) = PosInf"
  by code_simp

text \<open>
  Claim C3, as stated, fails: for the positive quantity \<open>1e308\<close> of Banana (89 kcal) the
  product overflows and the entry is created with calories \<open>Infinity\<close>, which is no integer.
\<close>

theorem overflowing_quantity:
  "num_less (Fin 0) huge_quantity \<and>
   calories (hd (logs (handleAddLog ''u'' 0 ''7'' huge_quantity (App_init ''2025-01-01'')))) =
     PosInf"
  using huge_product
  by (simp add: huge_quantity_value handleAddLog_def App_init_def DEMO_FOODS_def newLog_def
      del: num_mul.simps num_div.simps num_add.simps)

text \<open>
  Claim C3, amended. When the food is found and the scaled values stay finite in binary64
  arithmetic, \<open>handleAddLog\<close> puts one new entry in front of the entries; its calories are
  the product of the food's calories and the quantity, as computed in binary64, rounded
  to the nearest integer, and its protein, carbs and fat are the binary64 values nearest
  to \<open>k / 10\<close>, \<open>k\<close> being the tenfold of the computed product of the food's value and the
  quantity rounded to the nearest integer. The database variant stores the same entry.
  No later operation of the App recomputes an entry: editing, adding or deleting a food
  leaves the entries as they are, adding another entry keeps the existing ones, and
  deleting removes entries without changing those that stay.
\<close>

theorem handleAddLog_entry_rounded:
  assumes "find (\<lambda>x. Food.id' x = fid) (foods st) = Some food"
    and "num_mul (calories food) q = Fin yc"
    and "num_mul (num_mul (protein food) q) (Fin 10) = Fin yp"
    and "num_mul (num_mul (carbs food) q) (Fin 10) = Fin ycb"
    and "num_mul (num_mul (fat food) q) (Fin 10) = Fin yf"
  shows "\<exists>e. logs (handleAddLog uuid now fid q st) = e # logs st \<and>
           logs (fst (fb_handleAddLog uuid (Fulfilled ()) now fid q (st, w))) = e # logs st \<and>
           rounded_to_integer yc (calories e) \<and>
           rounded_to_tenth yp (protein e) \<and>
           rounded_to_tenth ycb (carbs e) \<and>
           rounded_to_tenth yf (fat e) \<and>
           logs (handleEditFood i foodData (handleAddLog uuid now fid q st)) = e # logs st \<and>
           logs (handleDeleteFood i (handleAddLog uuid now fid q st)) = e # logs st \<and>
           logs (handleAddFood u foodData (handleAddLog uuid now fid q st)) = e # logs st \<and>
           (\<exists>pre. logs (handleAddLog u' now' fid' q' (handleAddLog uuid now fid q st)) =
                   pre @ e # logs st) \<and>
           logs (fst (handleDeleteLog net svc logId (handleAddLog uuid now fid q st, w))) =
             filter (\<lambda>l. id' l \<noteq> logId) (e # logs st)"
proof -
  let ?e = "newLog uuid now fid q food"
  let ?st = "handleAddLog uuid now fid q st"
  have added: "logs ?st = ?e # logs st"
    using assms(1) by (simp add: handleAddLog_def)
  have fb: "logs (fst (fb_handleAddLog uuid (Fulfilled ()) now fid q (st, w))) = ?e # logs st"
    using assms(1) by (simp add: fb_handleAddLog_def)
  have again: "\<exists>pre. logs (handleAddLog u' now' fid' q' ?st) = pre @ ?e # logs st"
  proof (cases "find (\<lambda>x. Food.id' x = fid') (foods ?st)")
    case None
    then have "logs (handleAddLog u' now' fid' q' ?st) = [] @ ?e # logs st"
      using added by (simp add: handleAddLog_def)
    then show ?thesis by blast
  next
    case (Some food')
    then have "logs (handleAddLog u' now' fid' q' ?st) = [newLog u' now' fid' q' food'] @ ?e # logs st"
      using added by (simp add: handleAddLog_def)
    then show ?thesis by blast
  qed
  have "logs ?st = ?e # logs st \<and>
        logs (fst (fb_handleAddLog uuid (Fulfilled ()) now fid q (st, w))) = ?e # logs st \<and>
        rounded_to_integer yc (calories ?e) \<and>
        rounded_to_tenth yp (protein ?e) \<and>
        rounded_to_tenth ycb (carbs ?e) \<and>
        rounded_to_tenth yf (fat ?e) \<and>
        logs (handleEditFood i foodData ?st) = ?e # logs st \<and>
        logs (handleDeleteFood i ?st) = ?e # logs st \<and>
        logs (handleAddFood u foodData ?st) = ?e # logs st \<and>
        (\<exists>pre. logs (handleAddLog u' now' fid' q' ?st) = pre @ ?e # logs st) \<and>
        logs (fst (handleDeleteLog net svc logId (?st, w))) =
          filter (\<lambda>l. id' l \<noteq> logId) (?e # logs st)"
    using added fb again newLog_fields [OF assms(2-5)]
    by (simp add: handleEditFood_def handleDeleteFood_def handleAddFood_def handleDeleteLog_logs)
  then show ?thesis by blast
qed

theorem handleAddLog_entry_rounded_witness:
  "find (\<lambda>x. Food.id' x = ''1'') (foods (App_init ''2025-01-01'')) = Some (DEMO_FOODS ! 0) \<and>
   num_mul (calories (DEMO_FOODS ! 0)) (round_double (7 / 10)) =
     Fin (8127589952520191 / 70368744177664) \<and>
   num_mul (num_mul (protein (DEMO_FOODS ! 0)) (round_double (7 / 10))) (Fin 10) = Fin 217 \<and>
   num_mul (num_mul (carbs (DEMO_FOODS ! 0)) (round_double (7 / 10))) (Fin 10) = Fin 0 \<and>
   num_mul (num_mul (fat (DEMO_FOODS ! 0)) (round_double (7 / 10))) (Fin 10) =
     Fin (7093169413108531 / 281474976710656) \<and>
   (\<exists>e. logs (handleAddLog ''u'' 0 ''1'' (round_double (7 / 10)) (App_init ''2025-01-01'')) = [e] \<and>
        rounded_to_integer (8127589952520191 / 70368744177664) (calories e) \<and>
        rounded_to_tenth 217 (protein e) \<and>
        rounded_to_tenth 0 (carbs e) \<and>
        rounded_to_tenth (7093169413108531 / 281474976710656) (fat e))"
proof -
  let ?st = "App_init ''2025-01-01''"
  let ?q = "round_double (7 / 10)"
  have found: "find (\<lambda>x. Food.id' x = ''1'') (foods ?st) = Some (DEMO_FOODS ! 0)"
    by (simp add: App_init_def DEMO_FOODS_def)
  have c: "num_mul (calories (DEMO_FOODS ! 0)) ?q = Fin (8127589952520191 / 70368744177664)"
    by code_simp
  have p: "num_mul (num_mul (protein (DEMO_FOODS ! 0)) ?q) (Fin 10) = Fin 217"
    by code_simp
  have cb: "num_mul (num_mul (carbs (DEMO_FOODS ! 0)) ?q) (Fin 10) = Fin 0"
    by code_simp
  have f: "num_mul (num_mul (fat (DEMO_FOODS ! 0)) ?q) (Fin 10) =
             Fin (7093169413108531 / 281474976710656)"
    by code_simp
  have empty: "logs ?st = []"
    by (simp add: App_init_def)
  from handleAddLog_entry_rounded [OF found c p cb f, where uuid = "''u''" and now = 0]
  have "\<exists>e. logs (handleAddLog ''u'' 0 ''1'' ?q ?st) = e # logs ?st \<and>
          rounded_to_integer (8127589952520191 / 70368744177664) (calories e) \<and>
          rounded_to_tenth 217 (protein e) \<and>
          rounded_to_tenth 0 (carbs e) \<and>
          rounded_to_tenth (7093169413108531 / 281474976710656) (fat e)"
    by blast
  then have "\<exists>e. logs (handleAddLog ''u'' 0 ''1'' ?q ?st) = [e] \<and>
          rounded_to_integer (8127589952520191 / 70368744177664) (calories e) \<and>
          rounded_to_tenth 217 (protein e) \<and>
          rounded_to_tenth 0 (carbs e) \<and>
          rounded_to_tenth (7093169413108531 / 281474976710656) (fat e)"
    by (simp only: empty)
  with found c p cb f show ?thesis
    by (intro conjI)
qed

section \<open>Properties of the remote store and of loading\<close>

lemma loadDailyData_no_data:
  assumes "deploymentUrl svc \<noteq> []" and "no_data (net (loadDailyData_request svc date))"
  shows "loadDailyData net svc date w =
           (Inr None, emit (Error ''Error loading from Google Sheets:'')
                        (send (loadDailyData_request svc date) w))"
proof (cases "net (loadDailyData_request svc date)")
  case Rejects
  with assms(1) show ?thesis
    by (simp add: loadDailyData_def loadDailyData_try_def)
next
  case (Resolves body)
  show ?thesis
  proof (cases body)
    case None
    with Resolves assms(1) show ?thesis
      by (simp add: loadDailyData_def loadDailyData_try_def)
  next
    case (Some d)
    show ?thesis
    proof (cases "d = JNull")
      case True
      with Some Resolves assms(1) show ?thesis
        by (simp add: loadDailyData_def loadDailyData_try_def)
    next
      case False
      with Some Resolves assms(2) have err: "is_truthy (field d ''error'')"
        by (simp add: no_data_def)
      then obtain v where "getProp d ''error'' = Inr (Some v)" and "truthy v"
        by (auto simp: is_truthy_def field_def split: sum.splits option.splits)
      with Some Resolves assms(1) show ?thesis
        by (simp add: loadDailyData_def loadDailyData_try_def)
    qed
  qed
qed

lemma loadDailyData_data:
  assumes "deploymentUrl svc \<noteq> []" and "\<not> no_data (net (loadDailyData_request svc date))"
  shows "\<exists>d. net (loadDailyData_request svc date) = Resolves (Some d) \<and>
             loadDailyData net svc date w = (Inr (Some d), send (loadDailyData_request svc date) w)"
proof -
  from assms(2) obtain d where body: "net (loadDailyData_request svc date) = Resolves (Some d)"
    and "d \<noteq> JNull" and falsy: "\<not> is_truthy (field d ''error'')"
    by (auto simp: no_data_def split: FetchResult.splits option.splits)
  then obtain err where err: "getProp d ''error'' = Inr err"
    by (cases d) simp_all
  with falsy have "\<not> (case err of None \<Rightarrow> False | Some v \<Rightarrow> truthy v)"
    by (simp add: is_truthy_def field_def)
  with body err assms(1) have
    "loadDailyData net svc date w = (Inr (Some d), send (loadDailyData_request svc date) w)"
    by (simp add: loadDailyData_def loadDailyData_try_def)
  with body show ?thesis by blast
qed

lemma loadDailyData_returns: "\<exists>r w'. loadDailyData net svc date w = (Inr r, w')"
proof (cases "deploymentUrl svc = []")
  case True
  then show ?thesis by (simp add: loadDailyData_def)
next
  case False
  show ?thesis
  proof (cases "no_data (net (loadDailyData_request svc date))")
    case True
    with False show ?thesis by (simp add: loadDailyData_no_data)
  next
    case False
    with \<open>deploymentUrl svc \<noteq> []\<close> loadDailyData_data [of svc net date w] show ?thesis
      by auto
  qed
qed

lemma loadFromSheets_no_data:
  assumes "deploymentUrl svc \<noteq> []"
    and "no_data (net (loadDailyData_request svc (selectedDate st)))"
  shows "loadFromSheets rt nowString net svc (st, w) =
           (st\<lparr>logs := []\<rparr>,
            emit (Log ''No data in Google Sheets for'')
              (emit (Error ''Error loading from Google Sheets:'')
                 (send (loadDailyData_request svc (selectedDate st)) w)))"
  using assms
  by (simp add: loadFromSheets_def isConfigured_def loadDailyData_no_data loaded_foodLogs_def)

text \<open>
  Claim C10. With no deployment URL configured, \<open>saveDailyData\<close> returns false and
  \<open>loadDailyData\<close> returns null; neither sends a request, the only effect is one warning
  on the console, and the load of the App leaves its state as it is.
\<close>

theorem unconfigured_no_request:
  assumes "deploymentUrl svc = []"
  shows "saveDailyData net svc date ls tot w =
           (False, emit (Warn ''Google Sheets URL not configured'') w) \<and>
         requests (snd (saveDailyData net svc date ls tot w)) = requests w \<and>
         loadDailyData net svc date w =
           (Inr None, emit (Warn ''Google Sheets URL not configured'') w) \<and>
         requests (snd (loadDailyData net svc date w)) = requests w \<and>
         loadFromSheets rt nowString net svc (st, w) = (st, w)"
  using assms
  by (simp add: saveDailyData_def loadDailyData_def loadFromSheets_def isConfigured_def emit_def)

theorem unconfigured_no_request_witness:
  "deploymentUrl unconfigured = [] \<and>
   fst (saveDailyData (always Rejects) unconfigured ''2025-01-01'' [entry1] (totals [entry1])
          World_init) = False \<and>
   requests (snd (saveDailyData (always Rejects) unconfigured ''2025-01-01'' [entry1]
                    (totals [entry1]) World_init)) = [] \<and>
   fst (loadDailyData (always Rejects) unconfigured ''2025-01-01'' World_init) = Inr None \<and>
   requests (snd (loadDailyData (always Rejects) unconfigured ''2025-01-01'' World_init)) = []"
proof -
  have u: "deploymentUrl unconfigured = []"
    by (simp add: unconfigured_def)
  have "requests World_init = []"
    by (simp add: World_init_def)
  with u unconfigured_no_request [OF u, of "always Rejects" "''2025-01-01''" "[entry1]"
      "totals [entry1]" World_init plain_runtime "''0''" "App_init ''2025-01-01''"]
  show ?thesis
    by (simp add: emit_def)
qed

text \<open>
  Claim C7. A failed load of a date should leave the entries empty. In the spreadsheet
  variant the failures that \<open>loadDailyData\<close> turns into null do so, but the \<open>catch\<close> block
  of \<open>loadFromSheets\<close> only logs: for the response \<open>{"foodLogs": "abc"}\<close> the conversion
  throws, \<open>Failed to load from Google Sheets:\<close> is logged and the entry that was in the
  store stays. The \<open>catch\<close> block of \<open>loadLogs\<close> in the database variant logs and empties
  the store.
\<close>

theorem load_failure_keeps_entries:
  "logs day_with_entry = [entry1] \<and>
   logs (fst (loadFromSheets plain_runtime ''0'' (always (Resolves (Some foodLogs_string)))
                configured (day_with_entry, World_init))) = [entry1] \<and>
   Error ''Failed to load from Google Sheets:''
     \<in> set (console (snd (loadFromSheets plain_runtime ''0''
                             (always (Resolves (Some foodLogs_string))) configured
                             (day_with_entry, World_init)))) \<and>
   logs (fst (loadLogs unreachable_db (day_with_entry, World_init))) = [] \<and>
   Error ''Failed to load logs from Firebase:''
     \<in> set (console (snd (loadLogs unreachable_db (day_with_entry, World_init))))"
proof -
  have c: "deploymentUrl configured \<noteq> []"
    by (simp add: configured_def initialize_def APPS_SCRIPT_URL_def)
  have load: "loadDailyData (always (Resolves (Some foodLogs_string))) configured d w =
              (Inr (Some foodLogs_string), send (loadDailyData_request configured d) w)" for d w
    using c by (simp add: loadDailyData_def loadDailyData_try_def always_def foodLogs_string_def)
  have found: "loaded_foodLogs plain_runtime (Some foodLogs_string) = Some (JStr ''abc'')"
    by (simp add: loaded_foodLogs_def foodLogs_string_def field_def gt_zero_def)
  have sheets: "loadFromSheets plain_runtime ''0'' (always (Resolves (Some foodLogs_string)))
                  configured (day_with_entry, World_init) =
                (day_with_entry,
                 emit (Error ''Failed to load from Google Sheets:'')
                   (emit (Log ''Loaded from Google Sheets:'')
                      (send (loadDailyData_request configured (selectedDate day_with_entry))
                         World_init)))"
    using c by (simp add: loadFromSheets_def isConfigured_def load found convertedLogs_def)
  have db: "loadLogs unreachable_db (day_with_entry, World_init) =
            (day_with_entry\<lparr>logs := []\<rparr>,
             emit (Error ''Failed to load logs from Firebase:'') World_init)"
    by (simp add: loadLogs_def getLogsByDate_def unreachable_db_def)
  have l: "logs day_with_entry = [entry1]"
    by (simp add: day_with_entry_def)
  show ?thesis
    by (simp add: sheets db l emit_def)
qed

text \<open>
  Claim C9, as stated, fails: the response \<open>{"foodLogs": "abc"}\<close> is not of the declared
  shape, yet the load returns it, not null, and the caller, whose conversion then throws,
  keeps the entry it had instead of falling back to the empty state.
\<close>

theorem malformed_response_returned:
  "\<not> is_SyncData foodLogs_string \<and>
   fst (loadDailyData (always (Resolves (Some foodLogs_string))) configured ''2025-01-01''
          World_init) = Inr (Some foodLogs_string) \<and>
   logs (fst (loadFromSheets plain_runtime ''0'' (always (Resolves (Some foodLogs_string)))
                configured (day_with_entry, World_init))) = [entry1]"
proof -
  have c: "deploymentUrl configured \<noteq> []"
    by (simp add: configured_def initialize_def APPS_SCRIPT_URL_def)
  have shape: "\<not> is_SyncData foodLogs_string"
    by (simp add: is_SyncData_def foodLogs_string_def field_def)
  have load: "loadDailyData (always (Resolves (Some foodLogs_string))) configured d w =
              (Inr (Some foodLogs_string), send (loadDailyData_request configured d) w)" for d w
    using c by (simp add: loadDailyData_def loadDailyData_try_def always_def foodLogs_string_def)
  have found: "loaded_foodLogs plain_runtime (Some foodLogs_string) = Some (JStr ''abc'')"
    by (simp add: loaded_foodLogs_def foodLogs_string_def field_def gt_zero_def)
  have "logs (fst (loadFromSheets plain_runtime ''0'' (always (Resolves (Some foodLogs_string)))
                     configured (day_with_entry, World_init))) = logs day_with_entry"
    using c by (simp add: loadFromSheets_def isConfigured_def load found convertedLogs_def)
  with shape load show ?thesis
    by (simp add: day_with_entry_def)
qed

text \<open>
  Claim C9, amended. With the service configured, a failed request, a body that does not
  parse or is \<open>null\<close>, and a parsed body with a truthy \<open>error\<close> are treated as no data:
  the load logs the error and returns null, and the caller sets the entries to the empty
  list. Whatever the response, the load returns a value and propagates no exception.
\<close>

theorem loadDailyData_null_on_failure:
  assumes "deploymentUrl svc \<noteq> []"
    and "no_data (net (loadDailyData_request svc (selectedDate st)))"
  shows "fst (loadDailyData net svc (selectedDate st) w) = Inr None \<and>
         Error ''Error loading from Google Sheets:''
           \<in> set (console (snd (loadDailyData net svc (selectedDate st) w))) \<and>
         logs (fst (loadFromSheets rt nowString net svc (st, w))) = [] \<and>
         (\<exists>r w'. loadDailyData net' svc' date' w0 = (Inr r, w'))"
  using assms loadDailyData_returns [of net' svc' date' w0]
  by (simp add: loadDailyData_no_data loadFromSheets_no_data emit_def send_def)

theorem loadDailyData_null_on_failure_witness:
  "deploymentUrl configured \<noteq> [] \<and>
   no_data (always (Resolves None) (loadDailyData_request configured (selectedDate day_with_entry))) \<and>
   fst (loadDailyData (always (Resolves None)) configured (selectedDate day_with_entry) World_init) =
     Inr None \<and>
   logs (fst (loadFromSheets plain_runtime ''0'' (always (Resolves None)) configured
                (day_with_entry, World_init))) = []"
proof -
  have c: "deploymentUrl configured \<noteq> []"
    by (simp add: configured_def initialize_def APPS_SCRIPT_URL_def)
  have n: "no_data (always (Resolves None)
                      (loadDailyData_request configured (selectedDate day_with_entry)))"
    by (simp add: no_data_def always_def)
  from loadDailyData_null_on_failure [where svc = configured and net = "always (Resolves None)"
      and st = day_with_entry and rt = plain_runtime and nowString = "''0''"
      and w = World_init] c n
  show ?thesis
    by simp
qed

section \<open>Properties of deletion\<close>

lemma daily_writes_send:
  "daily_writes (send r w) =
     daily_writes w @ (case daily_write r of None \<Rightarrow> [] | Some x \<Rightarrow> [x])"
  by (simp add: daily_writes_def send_def List.map_filter_def split: option.splits)

lemma daily_writes_emit: "daily_writes (emit c w) = daily_writes w"
  by (simp add: daily_writes_def emit_def)

lemma daily_writes_alert: "daily_writes (alert m w) = daily_writes w"
  by (simp add: daily_writes_def alert_def)

lemma saveDailyData_writes:
  "deploymentUrl svc \<noteq> [] \<Longrightarrow>
   daily_writes (snd (saveDailyData net svc date ls tot w)) = daily_writes w @ [(date, ls, tot)]"
  by (simp add: saveDailyData_def Let_def daily_writes_send daily_writes_emit
      split: FetchResult.splits)

lemma saveDailySummary_writes:
  "daily_writes (snd (saveDailySummary net svc date tot g pc n w)) = daily_writes w"
  by (simp add: saveDailySummary_def Let_def daily_writes_send daily_writes_emit
      split: FetchResult.splits)

lemma saveStatistics_writes:
  "daily_writes (snd (saveStatistics net svc date a b c d n w)) = daily_writes w"
  by (simp add: saveStatistics_def Let_def daily_writes_send daily_writes_emit
      split: FetchResult.splits)

lemma handleDeleteLog_writes:
  assumes "deploymentUrl svc \<noteq> []"
  shows "daily_writes (snd (handleDeleteLog net svc logId (st, w))) =
           daily_writes w @
           [(selectedDate st, filter (\<lambda>l. id' l \<noteq> logId) (logs st),
             totals (filter (\<lambda>l. id' l \<noteq> logId) (logs st)))]"
proof -
  let ?ls = "filter (\<lambda>l. id' l \<noteq> logId) (logs st)"
  obtain ok w1 where s1: "saveDailyData net svc (selectedDate st) ?ls (totals ?ls) w = (ok, w1)"
    by (cases "saveDailyData net svc (selectedDate st) ?ls (totals ?ls) w") blast
  with saveDailyData_writes [OF assms, of net "selectedDate st" ?ls "totals ?ls" w]
  have w1: "daily_writes w1 = daily_writes w @ [(selectedDate st, ?ls, totals ?ls)]"
    by simp
  have "daily_writes (snd (handleDeleteLog net svc logId (st, w))) = daily_writes w1"
    using s1 saveDailySummary_writes saveStatistics_writes
    by (simp add: handleDeleteLog_def Let_def daily_writes_alert split: prod.splits)
      (metis snd_conv)
  with w1 show ?thesis by simp
qed

lemma handleDeleteLog_state:
  "fst (handleDeleteLog net svc logId (st, w)) = st\<lparr>logs := filter (\<lambda>l. id' l \<noteq> logId) (logs st)\<rparr>"
  by (simp add: handleDeleteLog_def Let_def split: prod.splits)

text \<open>
  Claim C6. With the service configured, deleting the two entries of a day one after the
  other leaves the entry set empty with all totals 0, and each deletion sends its write
  at once: the second write carries the empty list of entries and the zero totals.
\<close>

theorem delete_only_two_entries:
  assumes "deploymentUrl svc \<noteq> []" and "logs st = [e1, e2]"
  shows "logs (fst (handleDeleteLog net svc (id' e2) (handleDeleteLog net svc (id' e1) (st, w)))) = [] \<and>
         totals (logs (fst (handleDeleteLog net svc (id' e2)
                              (handleDeleteLog net svc (id' e1) (st, w))))) = zero_totals \<and>
         daily_writes (snd (handleDeleteLog net svc (id' e2)
                              (handleDeleteLog net svc (id' e1) (st, w)))) =
           daily_writes w @
           [(selectedDate st, filter (\<lambda>l. id' l \<noteq> id' e1) [e1, e2],
             totals (filter (\<lambda>l. id' l \<noteq> id' e1) [e1, e2])),
            (selectedDate st, [], zero_totals)]"
proof -
  let ?s1 = "handleDeleteLog net svc (id' e1) (st, w)"
  let ?s2 = "handleDeleteLog net svc (id' e2) (fst ?s1, snd ?s1)"
  have st1: "fst ?s1 = st\<lparr>logs := filter (\<lambda>l. id' l \<noteq> id' e1) [e1, e2]\<rparr>"
    using assms(2) by (simp add: handleDeleteLog_state)
  have w1: "daily_writes (snd ?s1) =
              daily_writes w @ [(selectedDate st, filter (\<lambda>l. id' l \<noteq> id' e1) [e1, e2],
                                 totals (filter (\<lambda>l. id' l \<noteq> id' e1) [e1, e2]))]"
    using handleDeleteLog_writes [OF assms(1), of net "id' e1" st w] assms(2) by simp
  have rest: "filter (\<lambda>l. id' l \<noteq> id' e2) (logs (fst ?s1)) = []"
    using st1 by simp
  have st2: "logs (fst ?s2) = []"
    using rest by (simp add: handleDeleteLog_state)
  have w2: "daily_writes (snd ?s2) = daily_writes (snd ?s1) @ [(selectedDate st, [], zero_totals)]"
    using handleDeleteLog_writes [OF assms(1), of net "id' e2" "fst ?s1" "snd ?s1"] rest st1
    by (simp add: totals_Nil)
  from st2 w1 w2 show ?thesis
    by (simp add: totals_Nil)
qed

theorem delete_only_two_entries_witness:
  "deploymentUrl configured \<noteq> [] \<and>
   logs day_with_two = [entry1, entry2] \<and>
   logs (fst (handleDeleteLog (always Rejects) configured (id' entry2)
                (handleDeleteLog (always Rejects) configured (id' entry1)
                   (day_with_two, World_init)))) = [] \<and>
   last (daily_writes (snd (handleDeleteLog (always Rejects) configured (id' entry2)
                              (handleDeleteLog (always Rejects) configured (id' entry1)
                                 (day_with_two, World_init))))) =
     (''2025-01-01'', [], zero_totals)"
proof -
  have c: "deploymentUrl configured \<noteq> []"
    by (simp add: configured_def initialize_def APPS_SCRIPT_URL_def)
  have l: "logs day_with_two = [entry1, entry2]"
    by (simp add: day_with_two_def)
  have d: "selectedDate day_with_two = ''2025-01-01''"
    by (simp add: day_with_two_def App_init_def)
  from delete_only_two_entries [OF c l, of "always Rejects" World_init] c l d
  show ?thesis
    by simp
qed

section \<open>Properties of the date of an entry\<close>

text \<open>
  Claim C8. The date of an entry should be taken in one fixed timezone everywhere. The
  selected date starts as the date computed by \<open>getCurrentDateIST\<close>, while the filter of
  the entries of the day, \<open>isToday\<close> and \<open>goToToday\<close> take the UTC date. At 2025-01-01T20:00:00Z in
  a browser whose timezone offset is 0, the selected date is 2025-01-02 and an entry
  logged at that moment has the date 2025-01-01: it is stored but not among the entries
  of the selected day.
\<close>

theorem entry_date_in_two_timezones:
  "getCurrentDateIST 1735761600000 0 = ''2025-01-02'' \<and>
   toISODate 1735761600000 = ''2025-01-01'' \<and>
   logs (handleAddLog ''a'' 1735761600000 ''1'' (Fin 1)
           (App_init (getCurrentDateIST 1735761600000 0))) = [entry1] \<and>
   todaysLogs (handleAddLog ''a'' 1735761600000 ''1'' (Fin 1)
                 (App_init (getCurrentDateIST 1735761600000 0))) = [] \<and>
   isToday 1735761600000 (App_init (getCurrentDateIST 1735761600000 0)) = False \<and>
   selectedDate (goToToday 1735761600000 (App_init (getCurrentDateIST 1735761600000 0))) =
     ''2025-01-01''"
proof -
  have ist: "getCurrentDateIST 1735761600000 0 = ''2025-01-02''"
    by code_simp
  have utc: "toISODate 1735761600000 = ''2025-01-01''"
    by code_simp
  have added: "handleAddLog ''a'' 1735761600000 ''1'' (Fin 1) (App_init ''2025-01-02'') =
               (App_init ''2025-01-02'')\<lparr>logs := [entry1]\<rparr>"
    by (simp add: handleAddLog_def App_init_def DEMO_FOODS_def entry1_def)
  have stamp: "timestamp entry1 = 1735761600000"
    by (simp add: entry1_def newLog_def)
  have sel: "selectedDate ((App_init ''2025-01-02'')\<lparr>logs := [entry1]\<rparr>) = ''2025-01-02''"
    by (simp add: App_init_def)
  have today: "isToday 1735761600000 (App_init ''2025-01-02'') = False"
    by (simp add: isToday_def utc App_init_def)
  have reset: "selectedDate (goToToday 1735761600000 (App_init ''2025-01-02'')) = ''2025-01-01''"
    by (simp add: goToToday_def utc)
  show ?thesis
    by (simp add: ist utc added todaysLogs_def stamp sel today reset)
qed

section \<open>Properties of the debounced synchronisation\<close>


lemma clear_pending_tracked:
  "tracked t \<Longrightarrow> cleanup t \<or> timeouts t = [] \<Longrightarrow> timeouts (clear_pending t) = []"
  by (auto simp: tracked_def clear_pending_def clearTimeout_def split: list.splits option.splits)

lemma tracked_cases:
  "tracked t \<Longrightarrow> timeouts (if cleanup t then clear_pending t else t) = []"
  by (auto simp: tracked_def clear_pending_def clearTimeout_def split: list.splits option.splits)

lemma clear_pending_fields:
  "lastSyncRef (clear_pending t) = lastSyncRef t"
  "nextTimeout (clear_pending t) = nextTimeout t"
  "syncTimeoutRef (clear_pending t) = syncTimeoutRef t"
  "cleanup (clear_pending t) = cleanup t"
  by (simp_all add: clear_pending_def split: option.splits)

lemma clear_pending_empty: "timeouts t = [] \<Longrightarrow> clear_pending t = t"
  by (simp add: clear_pending_def clearTimeout_def split: option.splits)

lemma render_tracked:
  assumes "tracked t"
  shows "tracked (render svc d gs t ls)"
    and "lastSyncRef (render svc d gs t ls) = lastSyncRef t"
    and "scheduled svc ls t \<Longrightarrow>
         \<exists>h job. timeouts (render svc d gs t ls) = [(h, job)] \<and> job_currentDate job = d \<and>
                 job_logs job = ls \<and> job_totals job = totals ls \<and>
                 job_logsHash job = JSON_stringify ls"
    and "\<not> scheduled svc ls t \<Longrightarrow> timeouts (render svc d gs t ls) = []"
proof -
  let ?t0 = "if cleanup t then clear_pending t else t"
  have e: "timeouts ?t0 = []" using assms by (rule tracked_cases)
  have n: "0 < nextTimeout ?t0" using assms by (simp add: tracked_def clear_pending_fields)
  have l: "lastSyncRef ?t0 = lastSyncRef t" by (simp add: clear_pending_fields)
  have c: "clear_pending ?t0 = ?t0" using e by (rule clear_pending_empty)
  show "tracked (render svc d gs t ls)"
    using e n c by (simp add: render_def sync_effect_def Let_def tracked_def)
  show "lastSyncRef (render svc d gs t ls) = lastSyncRef t"
    using l c by (simp add: render_def sync_effect_def Let_def)
  show "\<exists>h job. timeouts (render svc d gs t ls) = [(h, job)] \<and> job_currentDate job = d \<and>
                 job_logs job = ls \<and> job_totals job = totals ls \<and>
                 job_logsHash job = JSON_stringify ls" if "scheduled svc ls t"
    using that e l c by (simp add: render_def sync_effect_def Let_def scheduled_def)
  show "timeouts (render svc d gs t ls) = []" if "\<not> scheduled svc ls t"
    using that e l c by (auto simp add: render_def sync_effect_def Let_def scheduled_def)
qed


lemma burst_snoc:
  "burst svc d gs (states @ [ls]) t = render svc d gs (burst svc d gs states t) ls"
  by (simp add: burst_def)

lemma burst_tracked:
  "tracked t \<Longrightarrow>
   tracked (burst svc d gs states t) \<and> lastSyncRef (burst svc d gs states t) = lastSyncRef t"
proof (induction states rule: rev_induct)
  case Nil
  then show ?case by (simp add: burst_def)
next
  case (snoc ls states)
  then show ?case
    by (simp add: burst_snoc render_tracked(1,2))
qed

lemma burst_timeouts:
  assumes "tracked t" and "states \<noteq> []"
  shows "if scheduled svc (last states) t
         then \<exists>h job. timeouts (burst svc d gs states t) = [(h, job)] \<and> job_currentDate job = d \<and>
                 job_logs job = last states \<and> job_totals job = totals (last states) \<and>
                 job_logsHash job = JSON_stringify (last states)
         else timeouts (burst svc d gs states t) = []"
proof -
  let ?t = "burst svc d gs (butlast states) t"
  have split: "burst svc d gs states t = render svc d gs ?t (last states)"
    using assms(2) burst_snoc [of svc d gs "butlast states" "last states" t] by simp
  have tr: "tracked ?t" and ls: "lastSyncRef ?t = lastSyncRef t"
    using burst_tracked [OF assms(1)] by simp_all
  have same: "scheduled svc (last states) ?t = scheduled svc (last states) t"
    using ls by (simp add: scheduled_def)
  show ?thesis
    using render_tracked(3,4) [OF tr, of svc "last states" d gs] same split by auto
qed

lemma window_elapses_none: "timeouts t = [] \<Longrightarrow> window_elapses net svc (t, w) = (t, w)"
  by (simp add: window_elapses_def)

lemma window_elapses_one:
  "timeouts t = [(h, job)] \<Longrightarrow>
   window_elapses net svc (t, w) = sync_callback net svc job (t\<lparr>timeouts := []\<rparr>, w)"
  by (simp add: window_elapses_def timeout_fires_def clearTimeout_def)

lemma sync_callback_lastSyncRef:
  "lastSyncRef (fst (sync_callback net svc job (t, w))) = job_logsHash job"
  by (simp add: sync_callback_def Let_def split: prod.splits)

lemma sync_callback_writes:
  assumes "deploymentUrl svc \<noteq> []"
  shows "daily_writes (snd (sync_callback net svc job (t, w))) =
           daily_writes w @ [(job_currentDate job, job_logs job, job_totals job)]"
proof -
  obtain ok w1 where s1:
    "saveDailyData net svc (job_currentDate job) (job_logs job) (job_totals job) w = (ok, w1)"
    by (cases "saveDailyData net svc (job_currentDate job) (job_logs job) (job_totals job) w") blast
  with saveDailyData_writes [OF assms, of net "job_currentDate job" "job_logs job" "job_totals job" w]
  have w1: "daily_writes w1 =
              daily_writes w @ [(job_currentDate job, job_logs job, job_totals job)]"
    by simp
  have "daily_writes (snd (sync_callback net svc job (t, w))) = daily_writes w1"
    using s1 saveDailySummary_writes saveStatistics_writes
    by (simp add: sync_callback_def Let_def daily_writes_emit split: prod.splits)
      (metis snd_conv)
  with w1 show ?thesis by simp
qed

text \<open>
  Claim C4, amended. A burst of one or more renders of the component during which no
  timeout expires, started in a state whose pending timeout is tracked, leaves at most
  one timeout pending. When the window elapses, the debounced dispatcher sends exactly
  one write, of the final entry set with its totals, if the service is configured, the
  final entry set is not empty and its fingerprint differs from the last dispatched one;
  otherwise it sends none. It never sends an intermediate state.
\<close>

theorem burst_coalesced:
  assumes "tracked t" and "states \<noteq> []"
  shows "daily_writes (snd (window_elapses net svc (burst svc d gs states t, w))) =
           daily_writes w @
           (if scheduled svc (last states) t then [(d, last states, totals (last states))] else [])"
proof (cases "scheduled svc (last states) t")
  case True
  with burst_timeouts [OF assms, of svc d gs] obtain h job where
    pending: "timeouts (burst svc d gs states t) = [(h, job)]" and
    job: "job_currentDate job = d" "job_logs job = last states"
      "job_totals job = totals (last states)"
    by auto
  from True have "deploymentUrl svc \<noteq> []"
    by (simp add: scheduled_def isConfigured_def)
  with pending job True show ?thesis
    by (simp add: window_elapses_one sync_callback_writes)
next
  case False
  with burst_timeouts [OF assms, of svc d gs] show ?thesis
    by (simp add: window_elapses_none)
qed

lemma configured_url: "deploymentUrl configured \<noteq> []"
  by (simp add: configured_def initialize_def APPS_SCRIPT_URL_def)

lemma tracked_init: "tracked DailyTracker_init"
  by (simp add: tracked_def DailyTracker_init_def)

lemma timeout_fires_tracked:
  assumes "tracked t"
  shows "tracked (fst (timeout_fires net svc (t, w) h))"
proof (cases "map_of (timeouts t) h")
  case None
  with assms show ?thesis by (simp add: timeout_fires_def)
next
  case (Some job)
  with assms have "timeouts t = [(h, job)]"
    by (auto simp: tracked_def split: list.splits if_splits)
  with assms Some show ?thesis
    by (simp add: timeout_fires_def sync_callback_def Let_def clearTimeout_def tracked_def
        split: prod.splits)
qed

lemma scheduled_init: "ls \<noteq> [] \<Longrightarrow> scheduled configured ls DailyTracker_init"
  by (simp add: scheduled_def isConfigured_def configured_url DailyTracker_init_def
      JSON_stringify_def)

theorem burst_coalesced_witness:
  "tracked DailyTracker_init \<and> [[entry1], [entry2, entry1]] \<noteq> [] \<and>
   daily_writes (snd (window_elapses (always Rejects) configured
                        (burst configured ''2025-01-01'' DEFAULT_GOALS
                           [[entry1], [entry2, entry1]] DailyTracker_init, World_init))) =
     [(''2025-01-01'', [entry2, entry1], totals [entry2, entry1])]"
proof -
  have ne: "[[entry1], [entry2, entry1]] \<noteq> []"
    by simp
  have sch: "scheduled configured (last [[entry1], [entry2, entry1]]) DailyTracker_init"
    by (simp add: scheduled_init)
  have "daily_writes World_init = []"
    by (simp add: daily_writes_def World_init_def List.map_filter_def)
  with burst_coalesced [OF tracked_init ne, of "always Rejects" configured "''2025-01-01''"
      DEFAULT_GOALS World_init] sch tracked_init
  show ?thesis
    by simp
qed

text \<open>
  Claim C4, as stated, fails: when the two entries of a day are deleted within the
  window, each deletion sends its write at once, so two writes are sent, the first of
  them carrying the intermediate state, and the debounced dispatcher sends none.
\<close>

theorem two_deletions_two_writes:
  "daily_writes (snd (snd (user_window_elapses (always (Resolves None)) configured
      (user_deletes (always (Resolves None)) configured ''b''
         (user_deletes (always (Resolves None)) configured ''a''
            (day_with_two, DailyTracker_init, World_init)))))) =
     [(''2025-01-01'', [entry2], totals [entry2]), (''2025-01-01'', [], zero_totals)]"
proof -
  let ?net = "always (Resolves None)"
  let ?s1 = "handleDeleteLog ?net configured ''a'' (day_with_two, World_init)"
  let ?t1 = "render configured (selectedDate (fst ?s1)) (goals (fst ?s1)) DailyTracker_init
               (todaysLogs (fst ?s1))"
  let ?s2 = "handleDeleteLog ?net configured ''b'' (fst ?s1, snd ?s1)"
  let ?t2 = "render configured (selectedDate (fst ?s2)) (goals (fst ?s2)) ?t1
               (todaysLogs (fst ?s2))"
  have ids: "id' entry1 = ''a''" "id' entry2 = ''b''"
    by (simp_all add: entry1_def entry2_def newLog_def)
  have w0: "daily_writes World_init = []"
    by (simp add: daily_writes_def World_init_def List.map_filter_def)
  have w1: "daily_writes (snd ?s1) = [(''2025-01-01'', [entry2], totals [entry2])]"
    using handleDeleteLog_writes [OF configured_url, of ?net "''a''" day_with_two World_init] w0
    by (simp add: day_with_two_def App_init_def ids)
  have sel1: "selectedDate (fst ?s1) = ''2025-01-01''" and logs1: "logs (fst ?s1) = [entry2]"
    by (simp_all add: handleDeleteLog_state day_with_two_def App_init_def ids)
  have st2: "logs (fst ?s2) = []"
    using logs1 by (simp add: handleDeleteLog_state ids)
  have w2: "daily_writes (snd ?s2) =
              [(''2025-01-01'', [entry2], totals [entry2]), (''2025-01-01'', [], zero_totals)]"
    using handleDeleteLog_writes [OF configured_url, of ?net "''b''" "fst ?s1" "snd ?s1"]
      w1 sel1 logs1
    by (simp add: ids totals_Nil)
  have tr1: "tracked ?t1"
    by (rule render_tracked(1) [OF tracked_init])
  have "todaysLogs (fst ?s2) = []"
    using st2 by (simp add: todaysLogs_def)
  then have "\<not> scheduled configured (todaysLogs (fst ?s2)) ?t1"
    by (simp add: scheduled_def)
  then have none: "timeouts ?t2 = []"
    by (rule render_tracked(4) [OF tr1])
  have "user_window_elapses ?net configured
          (user_deletes ?net configured ''b''
             (user_deletes ?net configured ''a'' (day_with_two, DailyTracker_init, World_init))) =
        (fst ?s2, ?t2, snd ?s2)"
    using none
    by (simp add: user_window_elapses_def user_deletes_def window_elapses_none case_prod_beta)
  with w2 show ?thesis
    by simp
qed

text \<open>
  Claim C5, as stated, fails: with a network on which every request fails, the timeout
  expires, the write is sent and is never acknowledged, and the last dispatched
  fingerprint is nevertheless that of the entries.
\<close>

theorem fingerprint_set_without_acknowledgement:
  "daily_writes (snd (window_elapses (always Rejects) configured (one_pending, World_init))) =
     [(''2025-01-01'', [entry1], totals [entry1])] \<and>
   acknowledged (always Rejects)
     (snd (window_elapses (always Rejects) configured (one_pending, World_init))) = [] \<and>
   lastSyncRef (fst (window_elapses (always Rejects) configured (one_pending, World_init))) =
     JSON_stringify [entry1]"
proof -
  have sch: "scheduled configured [entry1] DailyTracker_init"
    by (simp add: scheduled_init)
  from render_tracked(3) [OF tracked_init sch, of "''2025-01-01''" DEFAULT_GOALS]
  obtain h job where pending: "timeouts one_pending = [(h, job)]"
    and job: "job_currentDate job = ''2025-01-01''" "job_logs job = [entry1]"
      "job_totals job = totals [entry1]" "job_logsHash job = JSON_stringify [entry1]"
    by (auto simp: one_pending_def)
  have w0: "daily_writes World_init = []"
    by (simp add: daily_writes_def World_init_def List.map_filter_def)
  have "acknowledged (always Rejects) w = []" for w
    by (simp add: acknowledged_def always_def)
  with pending job w0 show ?thesis
    by (simp add: window_elapses_one sync_callback_writes [OF configured_url]
        sync_callback_lastSyncRef)
qed

text \<open>
  Claim C5, amended. The last dispatched fingerprint changes only when a pending timeout
  expires: its callback sets the fingerprint to that of the entries it captured, whatever
  the outcome of the write that it sends; a render leaves it as it is.
\<close>

theorem fingerprint_set_when_timeout_fires:
  assumes "map_of (timeouts t) h = Some job"
  shows "lastSyncRef (fst (timeout_fires net svc (t, w) h)) = job_logsHash job \<and>
         lastSyncRef (render svc d gs t ls) = lastSyncRef t"
proof -
  have "lastSyncRef (render svc d gs t ls) = lastSyncRef t"
    by (simp add: render_def sync_effect_def Let_def clear_pending_fields)
  with assms show ?thesis
    by (simp add: timeout_fires_def sync_callback_lastSyncRef)
qed

theorem fingerprint_set_when_timeout_fires_witness:
  "map_of (timeouts one_pending) 1 = Some job1 \<and>
   lastSyncRef (fst (timeout_fires (always Rejects) configured (one_pending, World_init) 1)) =
     JSON_stringify [entry1] \<and>
   lastSyncRef one_pending = EmptyString"
proof -
  have sch: "isConfigured configured \<and> JSON_stringify [entry1] \<noteq> EmptyString"
    by (simp add: isConfigured_def configured_url JSON_stringify_def)
  then have pending: "map_of (timeouts one_pending) 1 = Some job1"
    by (simp add: one_pending_def render_def sync_effect_def Let_def DailyTracker_init_def
        clear_pending_def job1_def)
  have init: "lastSyncRef DailyTracker_init = EmptyString"
    by (simp add: DailyTracker_init_def)
  have hash: "job_logsHash job1 = JSON_stringify [entry1]"
    by (simp add: job1_def)
  have unchanged: "lastSyncRef one_pending = EmptyString"
    using render_tracked(2) [OF tracked_init] init by (simp add: one_pending_def)
  from fingerprint_set_when_timeout_fires [OF pending, where net = "always Rejects"
      and svc = configured and w = World_init and d = "''2025-01-01''" and gs = DEFAULT_GOALS
      and ls = "[entry1]"] pending unchanged hash
  show ?thesis
    by simp
qed

end
